theory Spec2Isabelle
  imports Main
begin

section \<open>Directory tree (components/DirectoryTree)\<close>

text \<open>
  The children of a node are the string "unloaded", an object carrying a
  failureMessage, or an array of nodes. A node has a name, a path and children.
\<close>

datatype 'a DirectoryTreeFileChildren =
    Unloaded
  | LoadingFailed (failureMessage: string)
  | Loaded "'a list"

datatype DirectoryTreeFile =
  DirectoryTreeFile (name: string) (path: string)
    (children: "DirectoryTreeFile DirectoryTreeFileChildren")

text \<open>
  Modelled from the spec: the predicates isUnloadedChild, isErrorChild and isLoadedChild
  of components/DirectoryTree are imported by PathSelector.tsx and their bodies are not
  part of the sources. The specification says they are mutually exclusive and
  exhaustive over the three variants of the child state.
\<close>

fun isUnloadedChild :: "'a DirectoryTreeFileChildren \<Rightarrow> bool" where
  "isUnloadedChild Unloaded = True"
| "isUnloadedChild (LoadingFailed m) = False"
| "isUnloadedChild (Loaded cs) = False"

fun isErrorChild :: "'a DirectoryTreeFileChildren \<Rightarrow> bool" where
  "isErrorChild Unloaded = False"
| "isErrorChild (LoadingFailed m) = True"
| "isErrorChild (Loaded cs) = False"

fun isLoadedChild :: "'a DirectoryTreeFileChildren \<Rightarrow> bool" where
  "isLoadedChild Unloaded = False"
| "isLoadedChild (LoadingFailed m) = False"
| "isLoadedChild (Loaded cs) = True"

text \<open>
  Modelled from the spec: recursivelyUpdateDirectoryTree of components/DirectoryTree is
  imported by PathSelector.tsx and its body is not part of the sources. The
  specification: search the tree for the node whose path equals the target path; that
  node gets the new child state and keeps its name and path; the nodes on the way to it
  are rebuilt around it; a tree without the target path is returned as it is.
\<close>

fun recursivelyUpdateDirectoryTree ::
  "DirectoryTreeFile \<Rightarrow> string \<Rightarrow> DirectoryTreeFile DirectoryTreeFileChildren
    \<Rightarrow> DirectoryTreeFile" where
  "recursivelyUpdateDirectoryTree (DirectoryTreeFile n p ch) target newChildren =
     (if p = target then DirectoryTreeFile n p newChildren
      else (case ch of
              Loaded cs \<Rightarrow>
                DirectoryTreeFile n p
                  (Loaded (map (\<lambda>c. recursivelyUpdateDirectoryTree c target newChildren) cs))
            | Unloaded \<Rightarrow> DirectoryTreeFile n p ch
            | LoadingFailed m \<Rightarrow> DirectoryTreeFile n p ch))"

text \<open>
  Reading the tree: the child state of the first node, in document order, that has the
  given path. None when no node has it.
\<close>

fun childrenAt ::
  "DirectoryTreeFile \<Rightarrow> string \<Rightarrow> DirectoryTreeFile DirectoryTreeFileChildren option"
and childrenAtList ::
  "DirectoryTreeFile list \<Rightarrow> string \<Rightarrow> DirectoryTreeFile DirectoryTreeFileChildren option"
where
  "childrenAt (DirectoryTreeFile n p ch) target =
     (if p = target then Some ch
      else (case ch of Loaded cs \<Rightarrow> childrenAtList cs target | _ \<Rightarrow> None))"
| "childrenAtList [] target = None"
| "childrenAtList (c # cs) target =
     (case childrenAt c target of Some r \<Rightarrow> Some r | None \<Rightarrow> childrenAtList cs target)"


section \<open>PathSelector (components/PathSelector.tsx)\<close>

definition ROOT_PATH :: string where
  "ROOT_PATH = ''/''"

text \<open>
  The answer of a remote call, as the client library types it: a connection failure, a
  response whose success flag is false and that carries an error code, or a response
  whose success flag is true and that carries the data. The connection failure is a
  type of the library; the model leaves it a type parameter.
\<close>

datatype ('f, 'a) Response =
    ConnectionFailure 'f
  | SynologyFailure (code: int)
  | SynologySuccess (data: 'a)

text \<open>The entries of a listing: the two fields the component reads.\<close>

record FileStationEntry =
  entry_name :: string
  entry_path :: string

record ShareList =
  shares :: "FileStationEntry list"

record FileList =
  files :: "FileStationEntry list"

text \<open>An ApiClient instance is known by its identity; the component compares with !==.\<close>

type_synonym ApiClient = nat

datatype Request =
    List_share ApiClient
  | List_dir ApiClient string

text \<open>
  The component: its client prop, its React state, and its two private fields. The
  field onSettingsChangeListeners is the part of the clients' state the component can
  change: one entry, the client, for every registration of loadTopLevelDirectories on
  that client's settings-change stream. The unsubscribe callback a client returns
  removes one registration from that client; it is represented by the client.
  setState is modelled as an immediate update of the state. requestVersionByPath is an
  object used as a dictionary from paths to numbers; a path without an entry reads as
  undefined. The versions count requests and are modelled as natural numbers.
\<close>

record PathSelector =
  props_client :: ApiClient
  directoryTree :: DirectoryTreeFile
  unsubscribeCallback :: "ApiClient option"
  requestVersionByPath :: "string \<rightharpoonup> nat"
  onSettingsChangeListeners :: "ApiClient list"

definition initialPathSelector :: "ApiClient \<Rightarrow> PathSelector" where
  "initialPathSelector client =
     \<lparr> props_client = client,
       directoryTree = DirectoryTreeFile ''/'' ROOT_PATH Unloaded,
       unsubscribeCallback = None,
       requestVersionByPath = Map.empty,
       onSettingsChangeListeners = [] \<rparr>"

text \<open>
  An async method runs up to its await in one turn and, when the call resolves, its
  continuation runs in a later turn. What the continuation keeps from the first turn is
  the path and the stashed request version.
\<close>

record Pending =
  pendingPath :: string
  stashedRequestVersion :: nat
  request :: Request

datatype Dispatched =
    ProgrammerError
  | Awaiting Pending

definition unsubscribeFromClient :: "PathSelector \<Rightarrow> PathSelector" where
  "unsubscribeFromClient s =
     (case unsubscribeCallback s of
        Some c \<Rightarrow>
          s\<lparr> onSettingsChangeListeners := remove1 c (onSettingsChangeListeners s),
             unsubscribeCallback := None \<rparr>
      | None \<Rightarrow> s)"

definition subscribeToClient :: "ApiClient \<Rightarrow> PathSelector \<Rightarrow> PathSelector" where
  "subscribeToClient client s =
     (let s1 = unsubscribeFromClient s
      in s1\<lparr> onSettingsChangeListeners := onSettingsChangeListeners s1 @ [client],
              unsubscribeCallback := Some client \<rparr>)"

definition updateTreeWithResponse ::
  "('f \<Rightarrow> string) \<Rightarrow> (int \<Rightarrow> string \<Rightarrow> string) \<Rightarrow> string \<Rightarrow> ('f, 'a) Response
    \<Rightarrow> ('a \<Rightarrow> DirectoryTreeFile list) \<Rightarrow> PathSelector \<Rightarrow> PathSelector" where
  "updateTreeWithResponse errorMessageFromConnectionFailure errorMessageFromCode p response
      parseChildren s =
     (case response of
        ConnectionFailure f \<Rightarrow>
          s\<lparr> directoryTree := recursivelyUpdateDirectoryTree (directoryTree s) p
                (LoadingFailed (errorMessageFromConnectionFailure f)) \<rparr>
      | SynologyFailure c \<Rightarrow>
          s\<lparr> directoryTree := recursivelyUpdateDirectoryTree (directoryTree s) p
                (LoadingFailed (errorMessageFromCode c ''FileStation'')) \<rparr>
      | SynologySuccess d \<Rightarrow>
          s\<lparr> directoryTree := recursivelyUpdateDirectoryTree (directoryTree s) p
                (Loaded (parseChildren d)) \<rparr>)"

text \<open>loadNestedDirectory, up to its await.\<close>

definition loadNestedDirectory :: "string \<Rightarrow> PathSelector \<Rightarrow> Dispatched \<times> PathSelector" where
  "loadNestedDirectory p s =
     (if \<not> isLoadedChild (children (directoryTree s)) then (ProgrammerError, s)
      else
        (let stashed = (case requestVersionByPath s p of None \<Rightarrow> 0 | Some v \<Rightarrow> v) + 1;
             s1 = s\<lparr> requestVersionByPath := (requestVersionByPath s)(p \<mapsto> stashed) \<rparr>
         in (Awaiting \<lparr> pendingPath = p, stashedRequestVersion = stashed,
                         request = List_dir (props_client s1) p \<rparr>, s1)))"

text \<open>loadNestedDirectory, from its await on: the response has arrived.\<close>

definition loadNestedDirectory_resumed ::
  "('f \<Rightarrow> string) \<Rightarrow> (int \<Rightarrow> string \<Rightarrow> string) \<Rightarrow> string \<Rightarrow> nat
    \<Rightarrow> ('f, FileList) Response \<Rightarrow> PathSelector \<Rightarrow> PathSelector" where
  "loadNestedDirectory_resumed errorMessageFromConnectionFailure errorMessageFromCode p
      stashed response s =
     (if requestVersionByPath s p = Some stashed then
        updateTreeWithResponse errorMessageFromConnectionFailure errorMessageFromCode p response
          (\<lambda>d. map (\<lambda>f. DirectoryTreeFile (entry_name f) (entry_path f) Unloaded) (files d)) s
      else s)"

text \<open>loadTopLevelDirectories, up to its await.\<close>

definition loadTopLevelDirectories :: "PathSelector \<Rightarrow> Pending \<times> PathSelector" where
  "loadTopLevelDirectories s =
     (let s1 = s\<lparr> directoryTree :=
                   recursivelyUpdateDirectoryTree (directoryTree s) ROOT_PATH Unloaded \<rparr>;
          stashed = (case requestVersionByPath s1 ROOT_PATH of None \<Rightarrow> 0 | Some v \<Rightarrow> v) + 1;
          s2 = s1\<lparr> requestVersionByPath := (requestVersionByPath s1)(ROOT_PATH \<mapsto> stashed) \<rparr>
      in (\<lparr> pendingPath = ROOT_PATH, stashedRequestVersion = stashed,
             request = List_share (props_client s2) \<rparr>, s2))"

text \<open>loadTopLevelDirectories, from its await on.\<close>

definition loadTopLevelDirectories_resumed ::
  "('f \<Rightarrow> string) \<Rightarrow> (int \<Rightarrow> string \<Rightarrow> string) \<Rightarrow> nat
    \<Rightarrow> ('f, ShareList) Response \<Rightarrow> PathSelector \<Rightarrow> PathSelector" where
  "loadTopLevelDirectories_resumed errorMessageFromConnectionFailure errorMessageFromCode
      stashed response s =
     (if requestVersionByPath s ROOT_PATH = Some stashed then
        updateTreeWithResponse errorMessageFromConnectionFailure errorMessageFromCode ROOT_PATH
          response
          (\<lambda>d. map (\<lambda>f. DirectoryTreeFile (entry_name f) (entry_path f) Unloaded) (shares d)) s
      else s)"

definition componentDidMount :: "PathSelector \<Rightarrow> Pending \<times> PathSelector" where
  "componentDidMount s = loadTopLevelDirectories (subscribeToClient (props_client s) s)"

definition componentWillUnmount :: "PathSelector \<Rightarrow> PathSelector" where
  "componentWillUnmount s = unsubscribeFromClient s"

text \<open>
  componentWillReceiveProps runs while this.props still holds the previous props.
\<close>

definition componentWillReceiveProps ::
  "ApiClient \<Rightarrow> PathSelector \<Rightarrow> Pending option \<times> PathSelector" where
  "componentWillReceiveProps nextProps_client s =
     (if props_client s \<noteq> nextProps_client then
        (let s1 = unsubscribeFromClient s;
             s2 = subscribeToClient (props_client s1) s1;
             (pending, s3) = loadTopLevelDirectories s2
         in (Some pending, s3))
      else (None, s))"

text \<open>React, after componentWillReceiveProps has returned, installs the next props.\<close>

definition receiveProps :: "ApiClient \<Rightarrow> PathSelector \<Rightarrow> Pending option \<times> PathSelector" where
  "receiveProps nextProps_client s =
     (let (pending, s1) = componentWillReceiveProps nextProps_client s
      in (pending, s1\<lparr> props_client := nextProps_client \<rparr>))"

text \<open>
  The turns of the component, as events: the lifecycle methods, a call of one of the two
  loaders (the settings-change stream and componentDidMount call
  loadTopLevelDirectories, a row of the tree calls loadNestedDirectory), and the arrival
  of a response at a continuation that holds the given path and stashed version.
\<close>

datatype 'f Event =
    Mount
  | ReceiveProps ApiClient
  | Unmount
  | CallLoadTopLevelDirectories
  | CallLoadNestedDirectory string
  | ResolveTopLevel nat "('f, ShareList) Response"
  | ResolveNested string nat "('f, FileList) Response"

fun step ::
  "('f \<Rightarrow> string) \<Rightarrow> (int \<Rightarrow> string \<Rightarrow> string) \<Rightarrow> 'f Event \<Rightarrow> PathSelector
    \<Rightarrow> PathSelector" where
  "step ecf ec Mount s = snd (componentDidMount s)"
| "step ecf ec (ReceiveProps c) s = snd (receiveProps c s)"
| "step ecf ec Unmount s = componentWillUnmount s"
| "step ecf ec CallLoadTopLevelDirectories s = snd (loadTopLevelDirectories s)"
| "step ecf ec (CallLoadNestedDirectory p) s = snd (loadNestedDirectory p s)"
| "step ecf ec (ResolveTopLevel v r) s = loadTopLevelDirectories_resumed ecf ec v r s"
| "step ecf ec (ResolveNested p v r) s = loadNestedDirectory_resumed ecf ec p v r s"

fun run ::
  "('f \<Rightarrow> string) \<Rightarrow> (int \<Rightarrow> string \<Rightarrow> string) \<Rightarrow> 'f Event list \<Rightarrow> PathSelector
    \<Rightarrow> PathSelector" where
  "run ecf ec [] s = s"
| "run ecf ec (e # es) s = run ecf ec es (step ecf ec e s)"

text \<open>The version an event allocates for a path, when it issues a fetch for that path.\<close>

fun issued :: "string \<Rightarrow> 'f Event \<Rightarrow> PathSelector \<Rightarrow> nat option" where
  "issued p Mount s =
     (if p = ROOT_PATH then Some (stashedRequestVersion (fst (componentDidMount s)))
      else None)"
| "issued p (ReceiveProps c) s =
     (if p = ROOT_PATH then map_option stashedRequestVersion (fst (receiveProps c s))
      else None)"
| "issued p Unmount s = None"
| "issued p CallLoadTopLevelDirectories s =
     (if p = ROOT_PATH then Some (stashedRequestVersion (fst (loadTopLevelDirectories s)))
      else None)"
| "issued p (CallLoadNestedDirectory q) s =
     (if p = q then
        (case fst (loadNestedDirectory q s) of
           Awaiting pending \<Rightarrow> Some (stashedRequestVersion pending)
         | ProgrammerError \<Rightarrow> None)
      else None)"
| "issued p (ResolveTopLevel v r) s = None"
| "issued p (ResolveNested q v r) s = None"

text \<open>Some event of the run, started in the given state, issues a fetch for the path.\<close>

fun issuedDuring ::
  "('f \<Rightarrow> string) \<Rightarrow> (int \<Rightarrow> string \<Rightarrow> string) \<Rightarrow> string \<Rightarrow> 'f Event list \<Rightarrow> PathSelector
    \<Rightarrow> bool" where
  "issuedDuring ecf ec p [] s = False"
| "issuedDuring ecf ec p (e # es) s =
     (if issued p e s = None then issuedDuring ecf ec p es (step ecf ec e s) else True)"

section \<open>Background script (background/index.ts)\<close>

subsection \<open>Stored state, as the listener reads it\<close>

text \<open>
  A task: the fields the listener reads. The status is the string the service reports;
  the listener compares it with "finished" and "seeding".
\<close>

record Task =
  taskId :: string
  title :: string
  status :: string

record ConnectionSettings =
  protocol :: string
  hostname :: string
  port :: nat
  username :: string
  password :: string

record NotificationSettings =
  enableFeedbackNotifications :: bool
  enableCompletionNotifications :: bool
  completionPollingInterval :: int

datatype BadgeDisplayType = Total | Filtered

text \<open>
  The settings for visible tasks are read by filterTasks only (common/filtering, not
  part of the sources): their type is a parameter, and filterTasks is a parameter of the
  listener. So is getHostUrl (common/state), which reads the connection settings.
\<close>

record 'v Settings =
  connection :: ConnectionSettings
  visibleTasks :: 'v
  notifications :: NotificationSettings
  badgeDisplayType :: BadgeDisplayType

text \<open>
  The failure reason of the last task fetch is null or a value the listener only tests
  for presence; the timestamp of the last completed fetch is null or a number of
  milliseconds.
\<close>

record ('v, 'r) StoredState =
  settings :: "'v Settings"
  tasks :: "Task list"
  taskFetchFailureReason :: "'r option"
  tasksLastCompletedFetchTimestamp :: "int option"

subsection \<open>The API client\<close>

datatype SessionName = DownloadStation | FileStation

record ApiClientSettings =
  baseUrl :: "string option"
  account :: "string option"
  passwd :: "string option"
  session :: "SessionName option"

text \<open>
  Modelled from the spec: updateSettings is a method of the client library, which is
  not part of the sources. The specification: the client itself tells whether the new
  settings change its configuration; when they do, it takes them.
\<close>

definition updateSettings ::
  "ApiClientSettings \<Rightarrow> ApiClientSettings \<Rightarrow> bool \<times> ApiClientSettings" where
  "updateSettings new applied = (if applied \<noteq> new then (True, new) else (False, applied))"

subsection \<open>Effects and module state\<close>

text \<open>
  A displayed text is a literal string or the localised message of a key
  (browser.i18n.getMessage).
\<close>

datatype Text = Literal string | Message string

datatype Effect =
    ClearCachedTasks
  | PollTasksAfterClear
  | ClearInterval "nat option"
  | SetInterval nat int
  | SetIcon "(string \<times> string) list"
  | SetBadgeText string
  | SetBadgeBackgroundColor "nat list"
  | Notify Text Text "string option"
  | AddDownloadTasksAndPoll bool "string list"

datatype error = TypeError

text \<open>
  The module's variables. api_settings is the configuration of the one client, api.
  timersCreated counts the calls of setInterval; the handle setInterval returns is
  modelled as that count.
\<close>

record Background =
  api_settings :: ApiClientSettings
  finishedTaskIds :: "string set option"
  lastNotificationSettings :: "NotificationSettings option"
  notificationInterval :: "nat option"
  didInitializeSettings :: bool
  showNonErrorNotifications :: bool
  timersCreated :: nat

definition initialBackground :: Background where
  "initialBackground =
     \<lparr> api_settings = \<lparr> baseUrl = None, account = None, passwd = None, session = None \<rparr>,
       finishedTaskIds = None,
       lastNotificationSettings = None,
       notificationInterval = None,
       didInitializeSettings = False,
       showNonErrorNotifications = True,
       timersCreated = 0 \<rparr>"

subsection \<open>Strings\<close>

text \<open>
  Strings are sequences of code units below 256. toString is Number.prototype.toString
  on a length: a natural number, written in decimal.
\<close>

definition digitChar :: "nat \<Rightarrow> char" where
  "digitChar d = char_of (48 + d)"

fun toString :: "nat \<Rightarrow> string" where
  "toString n = (if n < 10 then [digitChar n] else toString (n div 10) @ [digitChar (n mod 10)])"

declare toString.simps [simp del]

text \<open>split("\n"): the pieces between line feeds; a string without one is one piece.\<close>

fun split_lf :: "string \<Rightarrow> string list" where
  "split_lf [] = [[]]"
| "split_lf (c # cs) =
     (if c = CHR 0x0A then [] # split_lf cs
      else (case split_lf cs of
              w # ws \<Rightarrow> (c # w) # ws
            | [] \<Rightarrow> [[c]]))"

text \<open>
  trim(): white space and line terminators go from both ends. Below 256 these are tab,
  line feed, vertical tab, form feed, carriage return, space and no-break space.
\<close>

definition isWhiteSpace :: "char \<Rightarrow> bool" where
  "isWhiteSpace c =
     (c \<in> set [CHR 0x09, CHR 0x0A, CHR 0x0B, CHR 0x0C, CHR 0x0D, CHR 0x20, CHR 0xA0])"

definition trim :: "string \<Rightarrow> string" where
  "trim s = rev (dropWhile isWhiteSpace (rev (dropWhile isWhiteSpace s)))"

text \<open>
  Modelled from the spec: startsWithAnyProtocol (common/apis/protocols) is not part of
  the sources. The specification: the string starts with one of the protocol schemes.
  The handler below takes the test and the list ALL_DOWNLOADABLE_PROTOCOLS as
  parameters; this definition is one such test.
\<close>

definition startsWithAnyProtocol :: "string \<Rightarrow> string list \<Rightarrow> bool" where
  "startsWithAnyProtocol url protocols = list_ex (\<lambda>p. take (length p) url = p) protocols"

subsection \<open>The context menu's click handler\<close>

record OnClickData =
  linkUrl :: "string option"
  srcUrl :: "string option"
  selectionText :: "string option"

text \<open>A string that is undefined or empty is falsy; truthy gives the string otherwise.\<close>

fun truthy :: "string option \<Rightarrow> string option" where
  "truthy None = None"
| "truthy (Some []) = None"
| "truthy (Some (c # cs)) = Some (c # cs)"

definition onclick ::
  "(string \<Rightarrow> string list \<Rightarrow> bool) \<Rightarrow> string list \<Rightarrow> OnClickData \<Rightarrow> Background
    \<Rightarrow> Effect list" where
  "onclick startsWithAny ALL_DOWNLOADABLE_PROTOCOLS d s =
     (case truthy (linkUrl d) of
        Some l \<Rightarrow> [AddDownloadTasksAndPoll (showNonErrorNotifications s) [l]]
      | None \<Rightarrow>
          (case truthy (srcUrl d) of
             Some u \<Rightarrow> [AddDownloadTasksAndPoll (showNonErrorNotifications s) [u]]
           | None \<Rightarrow>
               (case truthy (selectionText d) of
                  Some t \<Rightarrow>
                    (let urls = filter (\<lambda>url. startsWithAny url ALL_DOWNLOADABLE_PROTOCOLS)
                                  (map trim (split_lf t))
                     in if length urls = 0 then
                          [Notify (Message ''Failed_to_add_download'')
                             (Message ''Selected_text_is_not_a_valid_URL'') (Some ''failure'')]
                        else [AddDownloadTasksAndPoll (showNonErrorNotifications s) urls])
                | None \<Rightarrow>
                    [Notify (Message ''Failed_to_add_download'')
                       (Message ''URL_is_empty_or_missing'') (Some ''failure'')])))"

subsection \<open>The listener of onStoredStateChange\<close>

text \<open>Lines 315 to 339: the client is given the settings of the snapshot.\<close>

definition reconfigureClient ::
  "(ConnectionSettings \<Rightarrow> string option) \<Rightarrow> ('v, 'r) StoredState \<Rightarrow> Background
    \<Rightarrow> Effect list \<times> Background" where
  "reconfigureClient getHostUrl storedState s =
     (let (didUpdateSettings, applied) =
            updateSettings
              \<lparr> baseUrl = getHostUrl (connection (settings storedState)),
                account = Some (username (connection (settings storedState))),
                passwd = Some (password (connection (settings storedState))),
                session = Some DownloadStation \<rparr>
              (api_settings s);
          s1 = s\<lparr> api_settings := applied \<rparr>
      in if didUpdateSettings then
           ([ClearCachedTasks] @ (if didInitializeSettings s1 then [PollTasksAfterClear] else []),
            s1\<lparr> didInitializeSettings := True \<rparr>)
         else ([], s1))"

text \<open>Lines 341 to 351: the polling timer and the feedback flag.\<close>

definition updateNotificationInterval ::
  "('v, 'r) StoredState \<Rightarrow> Background \<Rightarrow> Effect list \<times> Background" where
  "updateNotificationInterval storedState s =
     (let (effects, s2) =
            (if Some (notifications (settings storedState)) \<noteq> lastNotificationSettings s then
               (let s1 = s\<lparr> lastNotificationSettings :=
                              Some (notifications (settings storedState)) \<rparr>
                in if enableCompletionNotifications (notifications (settings storedState)) then
                     ([ClearInterval (notificationInterval s1),
                       SetInterval (timersCreated s1)
                         (completionPollingInterval (notifications (settings storedState)) * 1000)],
                      s1\<lparr> notificationInterval := Some (timersCreated s1),
                          timersCreated := timersCreated s1 + 1 \<rparr>)
                   else ([ClearInterval (notificationInterval s1)], s1))
             else ([], s))
      in (effects,
          s2\<lparr> showNonErrorNotifications :=
                enableFeedbackNotifications (notifications (settings storedState)) \<rparr>))"

text \<open>
  Lines 353 to 395: the icon and the badge. A failure reason that is present is truthy.
  The display mode has the two values of its type, so the last branch of the source
  (assertNever, then return) has no value to run on.
\<close>

definition updateBadge ::
  "(Task list \<Rightarrow> 'v \<Rightarrow> Task list) \<Rightarrow> ('v, 'r) StoredState \<Rightarrow> Effect list" where
  "updateBadge filterTasks storedState =
     (if taskFetchFailureReason storedState \<noteq> None then
        [SetIcon [(''16'', ''icons/icon-16-disabled.png''),
                  (''32'', ''icons/icon-32-disabled.png''),
                  (''64'', ''icons/icon-64-disabled.png''),
                  (''128'', ''icons/icon-128-disabled.png''),
                  (''256'', ''icons/icon-256-disabled.png'')],
         SetBadgeText [],
         SetBadgeBackgroundColor [217, 0, 0, 255]]
      else
        (let taskCount =
               (case badgeDisplayType (settings storedState) of
                  Total \<Rightarrow> length (tasks storedState)
                | Filtered \<Rightarrow>
                    length (filterTasks (tasks storedState) (visibleTasks (settings storedState))))
         in [SetIcon [(''16'', ''icons/icon-16.png''),
                      (''32'', ''icons/icon-32.png''),
                      (''64'', ''icons/icon-64.png''),
                      (''128'', ''icons/icon-128.png''),
                      (''256'', ''icons/icon-256.png'')],
             SetBadgeText (if taskCount = 0 then [] else toString taskCount),
             SetBadgeBackgroundColor [0, 217, 0, 255]]))"

text \<open>
  Lines 409 to 414: one notification for every id of the list, titled with the first
  task of that id. Reading the title of a task that is not there throws; the
  notifications sent before stay sent.
\<close>

fun notifyEach :: "Task list \<Rightarrow> string list \<Rightarrow> Effect list \<times> error option" where
  "notifyEach ts [] = ([], None)"
| "notifyEach ts (i # ids) =
     (case find (\<lambda>t. taskId t = i) ts of
        None \<Rightarrow> ([], Some TypeError)
      | Some task \<Rightarrow>
          (let (effects, thrown) = notifyEach ts ids
           in (Notify (Literal (title task)) (Message ''Download_finished'') None # effects,
               thrown)))"

text \<open>Lines 397 to 417: completed tasks.\<close>

definition notifyCompletions ::
  "int \<Rightarrow> ('v, 'r) StoredState \<Rightarrow> Background
    \<Rightarrow> (Effect list \<times> error option) \<times> Background" where
  "notifyCompletions START_TIME storedState s =
     (if (case tasksLastCompletedFetchTimestamp storedState of
            None \<Rightarrow> False
          | Some t \<Rightarrow> t > START_TIME \<and> taskFetchFailureReason storedState = None)
      then
        (let updatedFinishedTaskIds =
               map taskId
                 (filter (\<lambda>t. status t = ''finished'' \<or> status t = ''seeding'')
                    (tasks storedState));
             (effects, thrown) =
               (case finishedTaskIds s of
                  Some prior \<Rightarrow>
                    if enableCompletionNotifications (notifications (settings storedState)) then
                      notifyEach (tasks storedState)
                        (filter (\<lambda>i. i \<notin> prior) updatedFinishedTaskIds)
                    else ([], None)
                | None \<Rightarrow> ([], None))
         in (case thrown of
               Some e \<Rightarrow> ((effects, Some e), s)
             | None \<Rightarrow>
                 ((effects, None), s\<lparr> finishedTaskIds := Some (set updatedFinishedTaskIds) \<rparr>)))
      else (([], None), s))"

text \<open>
  The listener, one snapshot at a time: the effects in the order they happen, the
  exception it threw if it threw one, and the module's variables afterwards.
\<close>

definition listener ::
  "(ConnectionSettings \<Rightarrow> string option) \<Rightarrow> (Task list \<Rightarrow> 'v \<Rightarrow> Task list) \<Rightarrow> int
    \<Rightarrow> ('v, 'r) StoredState \<Rightarrow> Background
    \<Rightarrow> (Effect list \<times> error option) \<times> Background" where
  "listener getHostUrl filterTasks START_TIME storedState s =
     (let (e1, s1) = reconfigureClient getHostUrl storedState s;
          (e2, s2) = updateNotificationInterval storedState s1;
          e3 = updateBadge filterTasks storedState;
          ((e4, thrown), s3) = notifyCompletions START_TIME storedState s2
      in ((e1 @ e2 @ e3 @ e4, thrown), s3))"

text \<open>The module's variables after the listener has seen a list of snapshots in turn.\<close>

fun listenAll ::
  "(ConnectionSettings \<Rightarrow> string option) \<Rightarrow> (Task list \<Rightarrow> 'v \<Rightarrow> Task list) \<Rightarrow> int
    \<Rightarrow> ('v, 'r) StoredState list \<Rightarrow> Background \<Rightarrow> Background" where
  "listenAll getHostUrl filterTasks START_TIME [] s = s"
| "listenAll getHostUrl filterTasks START_TIME (st # sts) s =
     listenAll getHostUrl filterTasks START_TIME sts
       (snd (listener getHostUrl filterTasks START_TIME st s))"

section \<open>Notions used in the statements\<close>

text \<open>The current request version of a path; a path never requested is at 0.\<close>

definition versionOf :: "PathSelector \<Rightarrow> string \<Rightarrow> nat" where
  "versionOf s p = (case requestVersionByPath s p of None \<Rightarrow> 0 | Some v \<Rightarrow> v)"

text \<open>Kinds of effects, to read one kind out of the effects of a turn.\<close>

fun isNotify :: "Effect \<Rightarrow> bool" where
  "isNotify (Notify t m k) = True"
| "isNotify e = False"

fun isBadgeEffect :: "Effect \<Rightarrow> bool" where
  "isBadgeEffect (SetIcon i) = True"
| "isBadgeEffect (SetBadgeText t) = True"
| "isBadgeEffect (SetBadgeBackgroundColor c) = True"
| "isBadgeEffect e = False"

fun isCacheEffect :: "Effect \<Rightarrow> bool" where
  "isCacheEffect ClearCachedTasks = True"
| "isCacheEffect PollTasksAfterClear = True"
| "isCacheEffect e = False"

text \<open>The configuration the listener hands to the client for a snapshot.\<close>

definition clientSettingsOf ::
  "(ConnectionSettings \<Rightarrow> string option) \<Rightarrow> ('v, 'r) StoredState \<Rightarrow> ApiClientSettings" where
  "clientSettingsOf getHostUrl storedState =
     \<lparr> baseUrl = getHostUrl (connection (settings storedState)),
       account = Some (username (connection (settings storedState))),
       passwd = Some (password (connection (settings storedState))),
       session = Some DownloadStation \<rparr>"

text \<open>Reading a decimal numeral back.\<close>

definition fromDecimal :: "string \<Rightarrow> nat" where
  "fromDecimal s = foldl (\<lambda>acc c. 10 * acc + (of_char c - 48)) 0 s"

definition isDigit :: "char \<Rightarrow> bool" where
  "isDigit c = (48 \<le> (of_char c :: nat) \<and> (of_char c :: nat) \<le> 57)"


section \<open>Example inputs\<close>

text \<open>Two translators of failures into messages, for the examples.\<close>

definition exampleFailureMessage :: "unit \<Rightarrow> string" where
  "exampleFailureMessage f = ''connection failure''"

definition exampleCodeMessage :: "int \<Rightarrow> string \<Rightarrow> string" where
  "exampleCodeMessage c ns = ''error''"

text \<open>
  A component whose top-level listing has arrived: the root is loaded with the one
  share /a, and the root path is at version 1.
\<close>

definition rootLoadedWithA :: PathSelector where
  "rootLoadedWithA =
     run exampleFailureMessage exampleCodeMessage
       [CallLoadTopLevelDirectories,
        ResolveTopLevel 1
          (SynologySuccess \<lparr> shares = [\<lparr> entry_name = ''a'', entry_path = ''/a'' \<rparr>] \<rparr>)]
       (initialPathSelector 0)"

text \<open>The same component after a listing of /a has been requested once.\<close>

definition listingOfARequested :: PathSelector where
  "listingOfARequested = snd (loadNestedDirectory ''/a'' rootLoadedWithA)"

text \<open>Snapshots of the stored state, and stand-ins for getHostUrl and filterTasks.\<close>

definition exampleGetHostUrl :: "ConnectionSettings \<Rightarrow> string option" where
  "exampleGetHostUrl c = Some (hostname c)"

definition exampleFilterTasks :: "Task list \<Rightarrow> unit \<Rightarrow> Task list" where
  "exampleFilterTasks ts v = filter (\<lambda>t. status t = ''downloading'') ts"

definition exampleSettings :: "unit Settings" where
  "exampleSettings =
     \<lparr> connection = \<lparr> protocol = ''https'', hostname = ''nas'', port = 5001,
                       username = ''u'', password = ''p'' \<rparr>,
       visibleTasks = (),
       notifications = \<lparr> enableFeedbackNotifications = True,
                          enableCompletionNotifications = True,
                          completionPollingInterval = 60 \<rparr>,
       badgeDisplayType = Total \<rparr>"

definition exampleTasks :: "Task list" where
  "exampleTasks =
     [\<lparr> taskId = ''A'', title = ''first'', status = ''finished'' \<rparr>,
      \<lparr> taskId = ''B'', title = ''second'', status = ''seeding'' \<rparr>,
      \<lparr> taskId = ''C'', title = ''third'', status = ''finished'' \<rparr>,
      \<lparr> taskId = ''D'', title = ''fourth'', status = ''downloading'' \<rparr>,
      \<lparr> taskId = ''E'', title = ''fifth'', status = ''waiting'' \<rparr>]"

definition exampleSnapshot :: "(unit, unit) StoredState" where
  "exampleSnapshot =
     \<lparr> settings = exampleSettings, tasks = exampleTasks,
       taskFetchFailureReason = None, tasksLastCompletedFetchTimestamp = Some 10 \<rparr>"

text \<open>The module's variables when the tasks A and B have been seen finished.\<close>

definition seenAB :: Background where
  "seenAB = initialBackground\<lparr> finishedTaskIds := Some {''A'', ''B''} \<rparr>"

text \<open>The same snapshot after the user has changed the password.\<close>

definition passwordChanged :: "(unit, unit) StoredState" where
  "passwordChanged =
     exampleSnapshot\<lparr> settings :=
       exampleSettings\<lparr> connection :=
         (connection exampleSettings)\<lparr> password := ''q'' \<rparr> \<rparr> \<rparr>"



text \<open>A translator of error codes that shows the namespace it was given.\<close>

definition exampleNamespaceMessage :: "int \<Rightarrow> string \<Rightarrow> string" where
  "exampleNamespaceMessage c ns = ns"


section \<open>Request versions\<close>

lemma updateTreeWithResponse_versions:
  "requestVersionByPath (updateTreeWithResponse ecf ec p r parse s) = requestVersionByPath s"
  by (simp add: updateTreeWithResponse_def split: Response.split)

lemma subscription_versions:
  "requestVersionByPath (unsubscribeFromClient s) = requestVersionByPath s"
  "requestVersionByPath (subscribeToClient c s) = requestVersionByPath s"
  by (simp_all add: unsubscribeFromClient_def subscribeToClient_def Let_def
      split: option.split)

lemma loadTopLevelDirectories_versions:
  "stashedRequestVersion (fst (loadTopLevelDirectories s)) = versionOf s ROOT_PATH + 1"
  "requestVersionByPath (snd (loadTopLevelDirectories s)) =
     (requestVersionByPath s)(ROOT_PATH \<mapsto> versionOf s ROOT_PATH + 1)"
  by (simp_all add: loadTopLevelDirectories_def versionOf_def Let_def)

lemma loadNestedDirectory_versions:
  "loadNestedDirectory p s = (ProgrammerError, s) \<or>
   loadNestedDirectory p s =
     (Awaiting \<lparr> pendingPath = p, stashedRequestVersion = versionOf s p + 1,
                 request = List_dir (props_client s) p \<rparr>,
      s\<lparr> requestVersionByPath := (requestVersionByPath s)(p \<mapsto> versionOf s p + 1) \<rparr>)"
  by (simp add: loadNestedDirectory_def versionOf_def Let_def)

lemma receiveProps_versions:
  "(fst (receiveProps c s) = None \<and>
      requestVersionByPath (snd (receiveProps c s)) = requestVersionByPath s) \<or>
   (map_option stashedRequestVersion (fst (receiveProps c s)) = Some (versionOf s ROOT_PATH + 1) \<and>
      requestVersionByPath (snd (receiveProps c s)) =
        (requestVersionByPath s)(ROOT_PATH \<mapsto> versionOf s ROOT_PATH + 1))"
  by (simp add: receiveProps_def componentWillReceiveProps_def split_def Let_def
      loadTopLevelDirectories_versions subscription_versions versionOf_def)

lemma componentDidMount_versions:
  "stashedRequestVersion (fst (componentDidMount s)) = versionOf s ROOT_PATH + 1"
  "requestVersionByPath (snd (componentDidMount s)) =
     (requestVersionByPath s)(ROOT_PATH \<mapsto> versionOf s ROOT_PATH + 1)"
  by (simp_all add: componentDidMount_def loadTopLevelDirectories_versions
      subscription_versions versionOf_def)

lemma bump_mono:
  fixes m :: "'k \<rightharpoonup> nat"
  assumes "m' = m \<or> m' = m(q \<mapsto> (case m q of None \<Rightarrow> 0 | Some v \<Rightarrow> v) + 1)"
  shows "(case m p of None \<Rightarrow> 0 | Some v \<Rightarrow> v) \<le> (case m' p of None \<Rightarrow> 0 | Some v \<Rightarrow> v)"
  using assms by (cases "p = q") (auto split: option.splits)

lemma step_versions:
  "requestVersionByPath (step ecf ec e s) = requestVersionByPath s \<or>
   (\<exists>q. requestVersionByPath (step ecf ec e s) =
      (requestVersionByPath s)(q \<mapsto> versionOf s q + 1))"
proof (cases e)
  case Mount
  then show ?thesis by (auto simp: componentDidMount_versions)
next
  case (ReceiveProps c)
  with receiveProps_versions[of c s] show ?thesis by auto
next
  case Unmount
  then show ?thesis by (simp add: componentWillUnmount_def subscription_versions)
next
  case CallLoadTopLevelDirectories
  then show ?thesis by (auto simp: loadTopLevelDirectories_versions)
next
  case (CallLoadNestedDirectory q)
  with loadNestedDirectory_versions[of q s] show ?thesis by auto
next
  case (ResolveTopLevel v r)
  then show ?thesis
    by (simp add: loadTopLevelDirectories_resumed_def updateTreeWithResponse_versions)
next
  case (ResolveNested q v r)
  then show ?thesis
    by (simp add: loadNestedDirectory_resumed_def updateTreeWithResponse_versions)
qed

lemma step_version_mono: "versionOf s p \<le> versionOf (step ecf ec e s) p"
proof -
  from step_versions[of ecf ec e s]
  obtain q where "requestVersionByPath (step ecf ec e s) = requestVersionByPath s \<or>
      requestVersionByPath (step ecf ec e s) =
        (requestVersionByPath s)(q \<mapsto> versionOf s q + 1)"
    by blast
  then show ?thesis
    unfolding versionOf_def by (rule bump_mono)
qed

lemma run_version_mono: "versionOf s p \<le> versionOf (run ecf ec es s) p"
proof (induction es arbitrary: s)
  case Nil
  show ?case by simp
next
  case (Cons e es)
  have "versionOf s p \<le> versionOf (step ecf ec e s) p"
    by (rule step_version_mono)
  also have "\<dots> \<le> versionOf (run ecf ec es (step ecf ec e s)) p"
    by (rule Cons.IH)
  finally show ?case by simp
qed

lemma issued_version:
  assumes "issued p e s = Some v"
  shows "v = versionOf s p + 1 \<and> requestVersionByPath (step ecf ec e s) p = Some v"
proof (cases e)
  case Mount
  with assms show ?thesis
    by (simp add: componentDidMount_versions split: if_splits)
next
  case (ReceiveProps c)
  with assms have root: "p = ROOT_PATH"
    and some: "map_option stashedRequestVersion (fst (receiveProps c s)) = Some v"
    by (simp_all split: if_splits)
  from some receiveProps_versions[of c s]
  have "v = versionOf s ROOT_PATH + 1"
    and "requestVersionByPath (snd (receiveProps c s)) =
      (requestVersionByPath s)(ROOT_PATH \<mapsto> versionOf s ROOT_PATH + 1)"
    by auto
  with root ReceiveProps show ?thesis by simp
next
  case Unmount
  with assms show ?thesis by simp
next
  case CallLoadTopLevelDirectories
  with assms show ?thesis
    by (simp add: loadTopLevelDirectories_versions split: if_splits)
next
  case (CallLoadNestedDirectory q)
  with assms loadNestedDirectory_versions[of q s] show ?thesis
    by (auto split: if_splits)
next
  case (ResolveTopLevel w r)
  with assms show ?thesis by simp
next
  case (ResolveNested q w r)
  with assms show ?thesis by simp
qed

lemma issuedDuring_version:
  "issuedDuring ecf ec p es s \<Longrightarrow> versionOf s p < versionOf (run ecf ec es s) p"
proof (induction es arbitrary: s)
  case Nil
  then show ?case by simp
next
  case (Cons e es)
  show ?case
  proof (cases "issued p e s")
    case (Some v)
    from issued_version[OF Some, of ecf ec]
    have "versionOf s p < versionOf (step ecf ec e s) p"
      by (simp add: versionOf_def)
    also have "\<dots> \<le> versionOf (run ecf ec es (step ecf ec e s)) p"
      by (rule run_version_mono)
    finally show ?thesis by simp
  next
    case None
    with Cons.prems have "issuedDuring ecf ec p es (step ecf ec e s)" by simp
    from Cons.IH[OF this] step_version_mono[of s p ecf ec e] show ?thesis by simp
  qed
qed

text \<open>
  C1. A continuation changes the component only when the version it stashed is the
  current version of its path: with any other current version it returns the component
  as it is. When a turn of the component issues a fetch for a path p and stashes version
  v, and a later turn of the run issues another fetch for p, then at the end of the run
  either continuation holding p and v, whatever the response, leaves the component
  exactly as it is. The run is any sequence of lifecycle calls, loader calls and
  arrivals of responses. The root path is covered by both loaders, a nested path by
  loadNestedDirectory.
\<close>

theorem superseded_response_is_discarded:
  fixes ecf :: "'f \<Rightarrow> string" and r :: "('f, FileList) Response"
    and r' :: "('f, ShareList) Response"
  assumes "issued p e s = Some v"
      and "issuedDuring ecf ec p es (step ecf ec e s)"
  shows "loadNestedDirectory_resumed ecf ec p v r (run ecf ec es (step ecf ec e s))
           = run ecf ec es (step ecf ec e s)
         \<and> (p = ROOT_PATH \<longrightarrow>
              loadTopLevelDirectories_resumed ecf ec v r' (run ecf ec es (step ecf ec e s))
                = run ecf ec es (step ecf ec e s))
         \<and> (\<forall>t w. requestVersionByPath t p \<noteq> Some w \<longrightarrow>
              loadNestedDirectory_resumed ecf ec p w r t = t)
         \<and> (\<forall>t w. requestVersionByPath t ROOT_PATH \<noteq> Some w \<longrightarrow>
              loadTopLevelDirectories_resumed ecf ec w r' t = t)"
proof -
  let ?s1 = "step ecf ec e s" and ?s2 = "run ecf ec es (step ecf ec e s)"
  from issued_version[OF assms(1), of ecf ec] have "versionOf ?s1 p = v"
    by (simp add: versionOf_def)
  with issuedDuring_version[OF assms(2)] have "v < versionOf ?s2 p" by simp
  then have ne: "requestVersionByPath ?s2 p \<noteq> Some v"
    by (auto simp: versionOf_def)
  have a: "loadNestedDirectory_resumed ecf ec p v r ?s2 = ?s2"
    using ne by (simp add: loadNestedDirectory_resumed_def)
  have b: "p = ROOT_PATH \<longrightarrow> loadTopLevelDirectories_resumed ecf ec v r' ?s2 = ?s2"
    using ne by (auto simp: loadTopLevelDirectories_resumed_def)
  have c: "\<forall>t w. requestVersionByPath t p \<noteq> Some w \<longrightarrow>
              loadNestedDirectory_resumed ecf ec p w r t = t"
    by (simp add: loadNestedDirectory_resumed_def)
  have d: "\<forall>t w. requestVersionByPath t ROOT_PATH \<noteq> Some w \<longrightarrow>
              loadTopLevelDirectories_resumed ecf ec w r' t = t"
    by (simp add: loadTopLevelDirectories_resumed_def)
  from a b c d show ?thesis by (intro conjI)
qed

lemma rootLoadedWithA_tree:
  "directoryTree rootLoadedWithA =
     DirectoryTreeFile ''/'' ''/'' (Loaded [DirectoryTreeFile ''a'' ''/a'' Unloaded])"
  by (simp add: rootLoadedWithA_def initialPathSelector_def loadTopLevelDirectories_def
      loadTopLevelDirectories_resumed_def updateTreeWithResponse_def ROOT_PATH_def Let_def)

lemma rootLoadedWithA_versions:
  "requestVersionByPath rootLoadedWithA = [''/'' \<mapsto> 1]"
  by (simp add: rootLoadedWithA_def initialPathSelector_def loadTopLevelDirectories_def
      loadTopLevelDirectories_resumed_def updateTreeWithResponse_def ROOT_PATH_def Let_def)

text \<open>
  The witness. Nested: with the root loaded, a listing of /a is requested (version 1)
  and requested again (version 2) before the first answer arrives; the first answer, a
  failure, is dropped. Root: the shares are requested (version 2) and requested again
  (version 3); the answer to the first of the two requests is dropped.
\<close>

theorem superseded_response_is_discarded_witness:
  "issued ''/a'' (CallLoadNestedDirectory ''/a'' :: unit Event) rootLoadedWithA = Some 1
   \<and> issuedDuring exampleFailureMessage exampleCodeMessage ''/a''
        [CallLoadNestedDirectory ''/a'']
        (step exampleFailureMessage exampleCodeMessage
           (CallLoadNestedDirectory ''/a'') rootLoadedWithA)
   \<and> loadNestedDirectory_resumed exampleFailureMessage exampleCodeMessage
        ''/a'' 1 (ConnectionFailure ())
        (run exampleFailureMessage exampleCodeMessage
           [CallLoadNestedDirectory ''/a'', CallLoadNestedDirectory ''/a''] rootLoadedWithA)
      = run exampleFailureMessage exampleCodeMessage
          [CallLoadNestedDirectory ''/a'', CallLoadNestedDirectory ''/a''] rootLoadedWithA
   \<and> issued ROOT_PATH (CallLoadTopLevelDirectories :: unit Event) rootLoadedWithA = Some 2
   \<and> issuedDuring exampleFailureMessage exampleCodeMessage ROOT_PATH
        [CallLoadTopLevelDirectories]
        (step exampleFailureMessage exampleCodeMessage CallLoadTopLevelDirectories
           rootLoadedWithA)
   \<and> loadTopLevelDirectories_resumed exampleFailureMessage exampleCodeMessage 2
        (SynologySuccess \<lparr> shares = [] \<rparr>)
        (run exampleFailureMessage exampleCodeMessage
           [CallLoadTopLevelDirectories, CallLoadTopLevelDirectories] rootLoadedWithA)
      = run exampleFailureMessage exampleCodeMessage
          [CallLoadTopLevelDirectories, CallLoadTopLevelDirectories] rootLoadedWithA
   \<and> requestVersionByPath rootLoadedWithA ''/a'' \<noteq> Some 1
   \<and> loadNestedDirectory_resumed exampleFailureMessage exampleCodeMessage
        ''/a'' 1 (ConnectionFailure ()) rootLoadedWithA = rootLoadedWithA
   \<and> requestVersionByPath rootLoadedWithA ROOT_PATH \<noteq> Some 7
   \<and> loadTopLevelDirectories_resumed exampleFailureMessage exampleCodeMessage 7
        (SynologySuccess \<lparr> shares = [] \<rparr>) rootLoadedWithA = rootLoadedWithA"
proof -
  let ?ecf = exampleFailureMessage and ?ec = exampleCodeMessage
  have h1: "issued ''/a'' (CallLoadNestedDirectory ''/a'' :: unit Event) rootLoadedWithA = Some 1"
    by (simp add: loadNestedDirectory_def rootLoadedWithA_tree rootLoadedWithA_versions Let_def)
  have h2: "issuedDuring ?ecf ?ec ''/a'' [CallLoadNestedDirectory ''/a'']
        (step ?ecf ?ec (CallLoadNestedDirectory ''/a'') rootLoadedWithA)"
    by (simp add: loadNestedDirectory_def rootLoadedWithA_tree rootLoadedWithA_versions Let_def)
  have h3: "issued ROOT_PATH (CallLoadTopLevelDirectories :: unit Event) rootLoadedWithA = Some 2"
    by (simp add: loadTopLevelDirectories_def rootLoadedWithA_versions ROOT_PATH_def Let_def)
  have h4: "issuedDuring ?ecf ?ec ROOT_PATH [CallLoadTopLevelDirectories]
        (step ?ecf ?ec CallLoadTopLevelDirectories rootLoadedWithA)"
    by simp
  have h5: "requestVersionByPath rootLoadedWithA ''/a'' \<noteq> Some 1"
    by (simp add: rootLoadedWithA_versions)
  have h6: "requestVersionByPath rootLoadedWithA ROOT_PATH \<noteq> Some 7"
    by (simp add: rootLoadedWithA_versions ROOT_PATH_def)
  note nested = superseded_response_is_discarded[OF h1 h2,
      of "ConnectionFailure ()" "SynologySuccess \<lparr> shares = [] \<rparr>"]
  note root = superseded_response_is_discarded[OF h3 h4,
      of "ConnectionFailure ()" "SynologySuccess \<lparr> shares = [] \<rparr>"]
  from nested have n1: "loadNestedDirectory_resumed ?ecf ?ec ''/a'' 1 (ConnectionFailure ())
        (run ?ecf ?ec [CallLoadNestedDirectory ''/a'', CallLoadNestedDirectory ''/a'']
           rootLoadedWithA)
      = run ?ecf ?ec [CallLoadNestedDirectory ''/a'', CallLoadNestedDirectory ''/a'']
          rootLoadedWithA"
    by simp
  from nested h5 have n2: "loadNestedDirectory_resumed ?ecf ?ec ''/a'' 1 (ConnectionFailure ())
        rootLoadedWithA = rootLoadedWithA"
    by blast
  from root have r1: "loadTopLevelDirectories_resumed ?ecf ?ec 2
        (SynologySuccess \<lparr> shares = [] \<rparr>)
        (run ?ecf ?ec [CallLoadTopLevelDirectories, CallLoadTopLevelDirectories]
           rootLoadedWithA)
      = run ?ecf ?ec [CallLoadTopLevelDirectories, CallLoadTopLevelDirectories]
          rootLoadedWithA"
    by simp
  from root h6 have r2: "loadTopLevelDirectories_resumed ?ecf ?ec 7
        (SynologySuccess \<lparr> shares = [] \<rparr>) rootLoadedWithA = rootLoadedWithA"
    by blast
  from h1 h2 n1 h3 h4 r1 h5 n2 h6 r2 show ?thesis by (intro conjI)
qed

section \<open>Applying a response\<close>

lemma update_lookup:
  "(childrenAt t p \<noteq> None \<longrightarrow> childrenAt (recursivelyUpdateDirectoryTree t p c) p = Some c) \<and>
   (childrenAt t p = None \<longrightarrow> recursivelyUpdateDirectoryTree t p c = t)"
  "(childrenAtList ts p \<noteq> None \<longrightarrow>
      childrenAtList (map (\<lambda>t. recursivelyUpdateDirectoryTree t p c) ts) p = Some c) \<and>
   (childrenAtList ts p = None \<longrightarrow> map (\<lambda>t. recursivelyUpdateDirectoryTree t p c) ts = ts)"
proof (induction t p and ts p rule: childrenAt_childrenAtList.induct)
  case (1 n q ch target)
  then show ?case by (cases ch) auto
next
  case (2 target)
  show ?case by simp
next
  case (3 c' cs target)
  then show ?case by (cases "childrenAt c' target") auto
qed

lemma listingOfARequested_tree:
  "directoryTree listingOfARequested =
     DirectoryTreeFile ''/'' ''/'' (Loaded [DirectoryTreeFile ''a'' ''/a'' Unloaded])"
  by (simp add: listingOfARequested_def loadNestedDirectory_def rootLoadedWithA_tree Let_def)

lemma listingOfARequested_versions:
  "requestVersionByPath listingOfARequested = [''/'' \<mapsto> 1, ''/a'' \<mapsto> 1]"
  by (simp add: listingOfARequested_def loadNestedDirectory_def rootLoadedWithA_tree
      rootLoadedWithA_versions Let_def)

text \<open>
  C6. updateTreeWithResponse changes the tree only, and changes it by one update at the
  path p: with a failure message made by the connection-failure translator for a
  connection failure, with a failure message made from the error code (in the
  FileStation namespace) for a response that is not a success, and with the parsed
  entries for a success. Every answer is a value of the response type and the function
  is total on it. When the tree has a node with path p, the children read at p after
  the update are exactly the new child state. The continuations of both loaders, once
  the version check has passed, do the same for every kind of answer: a connection
  failure and a protocol error become the failed child state with the translated
  message, at the path of the request (the root path for loadTopLevelDirectories), and
  a success becomes one node per returned entry, each with unloaded children.
\<close>

theorem response_sets_children_of_path:
  fixes ecf :: "'f \<Rightarrow> string" and parse :: "'a \<Rightarrow> DirectoryTreeFile list"
  shows "updateTreeWithResponse ecf ec p (ConnectionFailure f) parse s =
           s\<lparr> directoryTree :=
                recursivelyUpdateDirectoryTree (directoryTree s) p (LoadingFailed (ecf f)) \<rparr>
       \<and> updateTreeWithResponse ecf ec p (SynologyFailure c :: ('f, 'a) Response) parse s =
           s\<lparr> directoryTree :=
                recursivelyUpdateDirectoryTree (directoryTree s) p
                  (LoadingFailed (ec c ''FileStation'')) \<rparr>
       \<and> updateTreeWithResponse ecf ec p (SynologySuccess d :: ('f, 'a) Response) parse s =
           s\<lparr> directoryTree :=
                recursivelyUpdateDirectoryTree (directoryTree s) p (Loaded (parse d)) \<rparr>
       \<and> (\<forall>new. childrenAt (directoryTree s) p \<noteq> None \<longrightarrow>
             childrenAt (recursivelyUpdateDirectoryTree (directoryTree s) p new) p = Some new)
       \<and> (\<forall>v l. requestVersionByPath s p = Some v \<longrightarrow>
             loadNestedDirectory_resumed ecf ec p v (SynologySuccess l) s =
               s\<lparr> directoryTree :=
                    recursivelyUpdateDirectoryTree (directoryTree s) p
                      (Loaded (map (\<lambda>e. DirectoryTreeFile (entry_name e) (entry_path e) Unloaded)
                                 (files l))) \<rparr>)
       \<and> (\<forall>v l. requestVersionByPath s ROOT_PATH = Some v \<longrightarrow>
             loadTopLevelDirectories_resumed ecf ec v (SynologySuccess l) s =
               s\<lparr> directoryTree :=
                    recursivelyUpdateDirectoryTree (directoryTree s) ROOT_PATH
                      (Loaded (map (\<lambda>e. DirectoryTreeFile (entry_name e) (entry_path e) Unloaded)
                                 (shares l))) \<rparr>)
       \<and> (\<forall>v g. requestVersionByPath s p = Some v \<longrightarrow>
             loadNestedDirectory_resumed ecf ec p v (ConnectionFailure g) s =
               s\<lparr> directoryTree :=
                    recursivelyUpdateDirectoryTree (directoryTree s) p
                      (LoadingFailed (ecf g)) \<rparr>)
       \<and> (\<forall>v k. requestVersionByPath s p = Some v \<longrightarrow>
             loadNestedDirectory_resumed ecf ec p v (SynologyFailure k) s =
               s\<lparr> directoryTree :=
                    recursivelyUpdateDirectoryTree (directoryTree s) p
                      (LoadingFailed (ec k ''FileStation'')) \<rparr>)
       \<and> (\<forall>v g. requestVersionByPath s ROOT_PATH = Some v \<longrightarrow>
             loadTopLevelDirectories_resumed ecf ec v (ConnectionFailure g) s =
               s\<lparr> directoryTree :=
                    recursivelyUpdateDirectoryTree (directoryTree s) ROOT_PATH
                      (LoadingFailed (ecf g)) \<rparr>)
       \<and> (\<forall>v k. requestVersionByPath s ROOT_PATH = Some v \<longrightarrow>
             loadTopLevelDirectories_resumed ecf ec v (SynologyFailure k) s =
               s\<lparr> directoryTree :=
                    recursivelyUpdateDirectoryTree (directoryTree s) ROOT_PATH
                      (LoadingFailed (ec k ''FileStation'')) \<rparr>)"
proof -
  have lookup: "\<forall>new. childrenAt (directoryTree s) p \<noteq> None \<longrightarrow>
      childrenAt (recursivelyUpdateDirectoryTree (directoryTree s) p new) p = Some new"
    using update_lookup(1) by blast
  show ?thesis
    using lookup
    by (simp add: updateTreeWithResponse_def loadNestedDirectory_resumed_def
        loadTopLevelDirectories_resumed_def)
qed

text \<open>
  The witness: the tree has the node /a; a connection failure for /a is read back as a
  failed child state, and a successful listing of /a with the one entry /a/b, arriving
  while /a is at version 1, is read back as one node with unloaded children. At the
  root, at version 1: a successful listing of the shares replaces the children of the
  root, a connection failure leaves the root with the translated failure message, and
  a protocol error with code 408 leaves it with the message made for the FileStation
  namespace. A protocol error for /a does the same at /a.
\<close>

theorem response_sets_children_of_path_witness:
  "childrenAt (directoryTree listingOfARequested) ''/a'' \<noteq> None
   \<and> childrenAt
        (directoryTree
           (updateTreeWithResponse exampleFailureMessage exampleCodeMessage ''/a''
              (ConnectionFailure ()) (\<lambda>d :: FileList. []) listingOfARequested)) ''/a''
      = Some (LoadingFailed ''connection failure'')
   \<and> requestVersionByPath listingOfARequested ''/a'' = Some 1
   \<and> childrenAt
        (directoryTree
           (loadNestedDirectory_resumed exampleFailureMessage exampleCodeMessage ''/a'' 1
              (SynologySuccess \<lparr> files = [\<lparr> entry_name = ''b'', entry_path = ''/a/b'' \<rparr>] \<rparr>)
              listingOfARequested)) ''/a''
      = Some (Loaded [DirectoryTreeFile ''b'' ''/a/b'' Unloaded])
   \<and> requestVersionByPath rootLoadedWithA ROOT_PATH = Some 1
   \<and> directoryTree
        (loadTopLevelDirectories_resumed exampleFailureMessage exampleCodeMessage 1
           (SynologySuccess \<lparr> shares = [\<lparr> entry_name = ''c'', entry_path = ''/c'' \<rparr>] \<rparr>)
           rootLoadedWithA)
      = DirectoryTreeFile ''/'' ''/'' (Loaded [DirectoryTreeFile ''c'' ''/c'' Unloaded])
   \<and> directoryTree
        (loadTopLevelDirectories_resumed exampleFailureMessage exampleNamespaceMessage 1
           (ConnectionFailure ()) rootLoadedWithA)
      = DirectoryTreeFile ''/'' ''/'' (LoadingFailed ''connection failure'')
   \<and> directoryTree
        (loadTopLevelDirectories_resumed exampleFailureMessage exampleNamespaceMessage 1
           (SynologyFailure 408) rootLoadedWithA)
      = DirectoryTreeFile ''/'' ''/'' (LoadingFailed ''FileStation'')
   \<and> childrenAt
        (directoryTree
           (loadNestedDirectory_resumed exampleFailureMessage exampleNamespaceMessage ''/a'' 1
              (SynologyFailure 408) listingOfARequested)) ''/a''
      = Some (LoadingFailed ''FileStation'')
   \<and> childrenAt
        (directoryTree
           (loadNestedDirectory_resumed exampleFailureMessage exampleNamespaceMessage ''/a'' 1
              (ConnectionFailure ()) listingOfARequested)) ''/a''
      = Some (LoadingFailed ''connection failure'')"
proof -
  have h1: "childrenAt (directoryTree listingOfARequested) ''/a'' \<noteq> None"
    by (simp add: listingOfARequested_tree)
  have h2: "requestVersionByPath listingOfARequested ''/a'' = Some 1"
    by (simp add: listingOfARequested_versions)
  have h3: "requestVersionByPath rootLoadedWithA ROOT_PATH = Some 1"
    by (simp add: rootLoadedWithA_versions ROOT_PATH_def)
  note a = response_sets_children_of_path[where ecf = exampleFailureMessage
      and ec = exampleCodeMessage and p = "''/a''" and f = "()"
      and parse = "\<lambda>d :: FileList. []" and s = listingOfARequested]
  note b = response_sets_children_of_path[where ecf = exampleFailureMessage
      and ec = exampleCodeMessage and p = "''/a''" and f = "()"
      and parse = "\<lambda>d :: FileList. []" and s = rootLoadedWithA]
  note a' = response_sets_children_of_path[where ecf = exampleFailureMessage
      and ec = exampleNamespaceMessage and p = "''/a''" and f = "()"
      and parse = "\<lambda>d :: FileList. []" and s = listingOfARequested]
  note b' = response_sets_children_of_path[where ecf = exampleFailureMessage
      and ec = exampleNamespaceMessage and p = "''/a''" and f = "()"
      and parse = "\<lambda>d :: FileList. []" and s = rootLoadedWithA]
  from a h1 have c1: "childrenAt
        (directoryTree
           (updateTreeWithResponse exampleFailureMessage exampleCodeMessage ''/a''
              (ConnectionFailure ()) (\<lambda>d :: FileList. []) listingOfARequested)) ''/a''
      = Some (LoadingFailed ''connection failure'')"
    by (simp add: exampleFailureMessage_def)
  from a h1 h2 have c2: "childrenAt
        (directoryTree
           (loadNestedDirectory_resumed exampleFailureMessage exampleCodeMessage ''/a'' 1
              (SynologySuccess \<lparr> files = [\<lparr> entry_name = ''b'', entry_path = ''/a/b'' \<rparr>] \<rparr>)
              listingOfARequested)) ''/a''
      = Some (Loaded [DirectoryTreeFile ''b'' ''/a/b'' Unloaded])"
    by simp
  from b h3 have c3: "directoryTree
        (loadTopLevelDirectories_resumed exampleFailureMessage exampleCodeMessage 1
           (SynologySuccess \<lparr> shares = [\<lparr> entry_name = ''c'', entry_path = ''/c'' \<rparr>] \<rparr>)
           rootLoadedWithA)
      = DirectoryTreeFile ''/'' ''/'' (Loaded [DirectoryTreeFile ''c'' ''/c'' Unloaded])"
    by (simp add: rootLoadedWithA_tree ROOT_PATH_def)
  from b' h3 have "loadTopLevelDirectories_resumed exampleFailureMessage
        exampleNamespaceMessage 1 (ConnectionFailure ()) rootLoadedWithA =
      rootLoadedWithA\<lparr> directoryTree :=
        recursivelyUpdateDirectoryTree (directoryTree rootLoadedWithA) ROOT_PATH
          (LoadingFailed (exampleFailureMessage ())) \<rparr>"
    by blast
  then have c4: "directoryTree
        (loadTopLevelDirectories_resumed exampleFailureMessage exampleNamespaceMessage 1
           (ConnectionFailure ()) rootLoadedWithA)
      = DirectoryTreeFile ''/'' ''/'' (LoadingFailed ''connection failure'')"
    by (simp add: rootLoadedWithA_tree ROOT_PATH_def exampleFailureMessage_def)
  from b' h3 have "loadTopLevelDirectories_resumed exampleFailureMessage
        exampleNamespaceMessage 1 (SynologyFailure 408) rootLoadedWithA =
      rootLoadedWithA\<lparr> directoryTree :=
        recursivelyUpdateDirectoryTree (directoryTree rootLoadedWithA) ROOT_PATH
          (LoadingFailed (exampleNamespaceMessage 408 ''FileStation'')) \<rparr>"
    by blast
  then have c5: "directoryTree
        (loadTopLevelDirectories_resumed exampleFailureMessage exampleNamespaceMessage 1
           (SynologyFailure 408) rootLoadedWithA)
      = DirectoryTreeFile ''/'' ''/'' (LoadingFailed ''FileStation'')"
    by (simp add: rootLoadedWithA_tree ROOT_PATH_def exampleNamespaceMessage_def)
  from a' h2 have n1: "loadNestedDirectory_resumed exampleFailureMessage
        exampleNamespaceMessage ''/a'' 1 (SynologyFailure 408) listingOfARequested =
      listingOfARequested\<lparr> directoryTree :=
        recursivelyUpdateDirectoryTree (directoryTree listingOfARequested) ''/a''
          (LoadingFailed (exampleNamespaceMessage 408 ''FileStation'')) \<rparr>"
    by blast
  from a' h1 have "childrenAt
        (recursivelyUpdateDirectoryTree (directoryTree listingOfARequested) ''/a''
          (LoadingFailed (exampleNamespaceMessage 408 ''FileStation''))) ''/a''
      = Some (LoadingFailed (exampleNamespaceMessage 408 ''FileStation''))"
    by blast
  with n1 have c6: "childrenAt
        (directoryTree
           (loadNestedDirectory_resumed exampleFailureMessage exampleNamespaceMessage ''/a'' 1
              (SynologyFailure 408) listingOfARequested)) ''/a''
      = Some (LoadingFailed ''FileStation'')"
    by (simp add: exampleNamespaceMessage_def)
  from a' h2 have n2: "loadNestedDirectory_resumed exampleFailureMessage
        exampleNamespaceMessage ''/a'' 1 (ConnectionFailure ()) listingOfARequested =
      listingOfARequested\<lparr> directoryTree :=
        recursivelyUpdateDirectoryTree (directoryTree listingOfARequested) ''/a''
          (LoadingFailed (exampleFailureMessage ())) \<rparr>"
    by blast
  from a' h1 have "childrenAt
        (recursivelyUpdateDirectoryTree (directoryTree listingOfARequested) ''/a''
          (LoadingFailed (exampleFailureMessage ()))) ''/a''
      = Some (LoadingFailed (exampleFailureMessage ()))"
    by blast
  with n2 have c7: "childrenAt
        (directoryTree
           (loadNestedDirectory_resumed exampleFailureMessage exampleNamespaceMessage ''/a'' 1
              (ConnectionFailure ()) listingOfARequested)) ''/a''
      = Some (LoadingFailed ''connection failure'')"
    by (simp add: exampleFailureMessage_def)
  from h1 c1 h2 c2 h3 c3 c4 c5 c6 c7 show ?thesis by (intro conjI)
qed

section \<open>The guard of loadNestedDirectory\<close>

text \<open>
  C5. While the children of the root are not loaded, loadNestedDirectory only logs the
  programmer error: it returns normally, issues no request, allocates no version and
  leaves the component as it is. While they are loaded, it allocates the next version of
  the path, stores it, stashes it and issues the listing of the path on the current
  client; its continuation applies the response when the stashed version is still the
  current one and otherwise returns the component as it is.
\<close>

theorem loadNestedDirectory_guard:
  fixes ecf :: "'f \<Rightarrow> string"
  shows "(\<not> isLoadedChild (children (directoryTree s)) \<longrightarrow>
            loadNestedDirectory p s = (ProgrammerError, s))
       \<and> (isLoadedChild (children (directoryTree s)) \<longrightarrow>
            loadNestedDirectory p s =
              (Awaiting \<lparr> pendingPath = p, stashedRequestVersion = versionOf s p + 1,
                          request = List_dir (props_client s) p \<rparr>,
               s\<lparr> requestVersionByPath := (requestVersionByPath s)(p \<mapsto> versionOf s p + 1) \<rparr>))
       \<and> (\<forall>t v r. loadNestedDirectory_resumed ecf ec p v r t =
            (if requestVersionByPath t p = Some v
             then updateTreeWithResponse ecf ec p r
                    (\<lambda>d. map (\<lambda>e. DirectoryTreeFile (entry_name e) (entry_path e) Unloaded)
                           (files d)) t
             else t))"
  by (simp add: loadNestedDirectory_def loadNestedDirectory_resumed_def versionOf_def Let_def)

text \<open>
  The witness: a freshly constructed component, whose root is unloaded, and the
  component whose root is loaded with /a.
\<close>

theorem loadNestedDirectory_guard_witness:
  "\<not> isLoadedChild (children (directoryTree (initialPathSelector 0)))
   \<and> loadNestedDirectory ''/a'' (initialPathSelector 0) = (ProgrammerError, initialPathSelector 0)
   \<and> isLoadedChild (children (directoryTree rootLoadedWithA))
   \<and> fst (loadNestedDirectory ''/a'' rootLoadedWithA) =
        Awaiting \<lparr> pendingPath = ''/a'', stashedRequestVersion = 1, request = List_dir 0 ''/a'' \<rparr>
   \<and> requestVersionByPath (snd (loadNestedDirectory ''/a'' rootLoadedWithA)) ''/a'' = Some 1"
proof -
  have h1: "\<not> isLoadedChild (children (directoryTree (initialPathSelector 0)))"
    by (simp add: initialPathSelector_def)
  have h2: "isLoadedChild (children (directoryTree rootLoadedWithA))"
    by (simp add: rootLoadedWithA_tree)
  have v: "versionOf rootLoadedWithA ''/a'' = 0"
    by (simp add: versionOf_def rootLoadedWithA_versions)
  have c: "props_client rootLoadedWithA = 0"
    by (simp add: rootLoadedWithA_def initialPathSelector_def loadTopLevelDirectories_def
        loadTopLevelDirectories_resumed_def updateTreeWithResponse_def ROOT_PATH_def Let_def)
  from loadNestedDirectory_guard[where s = "initialPathSelector 0" and p = "''/a''"
      and ecf = exampleFailureMessage and ec = exampleCodeMessage] h1
  have c1: "loadNestedDirectory ''/a'' (initialPathSelector 0) =
      (ProgrammerError, initialPathSelector 0)"
    by blast
  from loadNestedDirectory_guard[where s = rootLoadedWithA and p = "''/a''"
      and ecf = exampleFailureMessage and ec = exampleCodeMessage] h2
  have "loadNestedDirectory ''/a'' rootLoadedWithA =
      (Awaiting \<lparr> pendingPath = ''/a'', stashedRequestVersion = 1, request = List_dir 0 ''/a'' \<rparr>,
       rootLoadedWithA\<lparr> requestVersionByPath :=
         (requestVersionByPath rootLoadedWithA)(''/a'' \<mapsto> 1) \<rparr>)"
    by (simp add: v c)
  then have c2: "fst (loadNestedDirectory ''/a'' rootLoadedWithA) =
        Awaiting \<lparr> pendingPath = ''/a'', stashedRequestVersion = 1, request = List_dir 0 ''/a'' \<rparr>"
    and c3: "requestVersionByPath (snd (loadNestedDirectory ''/a'' rootLoadedWithA)) ''/a'' = Some 1"
    by simp_all
  from h1 c1 h2 c2 c3 show ?thesis by (intro conjI)
qed

section \<open>The subscription to the client\<close>

lemma mounted:
  "snd (componentDidMount (initialPathSelector a)) =
     \<lparr> props_client = a,
       directoryTree = DirectoryTreeFile ''/'' ROOT_PATH Unloaded,
       unsubscribeCallback = Some a,
       requestVersionByPath = [ROOT_PATH \<mapsto> 1],
       onSettingsChangeListeners = [a] \<rparr>"
  by (simp add: componentDidMount_def subscribeToClient_def unsubscribeFromClient_def
      loadTopLevelDirectories_def initialPathSelector_def Let_def)

text \<open>
  C3. What the component does when its client prop changes. A component is mounted with
  client a and then receives the client b, another instance. The subscription on a is
  released and a new one is made, again on a: the component ends up with one
  registration, on the stream of the previous client a and none on the stream of its
  current client b, and the listing it starts goes to a as well. Unmounting releases that
  registration.
\<close>

theorem resubscribes_to_previous_client:
  "a \<noteq> b \<longrightarrow>
     (let (pending, s) = receiveProps b (snd (componentDidMount (initialPathSelector a)))
      in props_client s = b
         \<and> unsubscribeCallback s = Some a
         \<and> onSettingsChangeListeners s = [a]
         \<and> b \<notin> set (onSettingsChangeListeners s)
         \<and> map_option request pending = Some (List_share a)
         \<and> onSettingsChangeListeners (componentWillUnmount s) = []
         \<and> unsubscribeCallback (componentWillUnmount s) = None)"
  by (simp add: mounted receiveProps_def componentWillReceiveProps_def subscribeToClient_def
      unsubscribeFromClient_def loadTopLevelDirectories_def componentWillUnmount_def Let_def)

theorem resubscribes_to_previous_client_witness:
  "(1::nat) \<noteq> 2
   \<and> props_client (snd (receiveProps 2 (snd (componentDidMount (initialPathSelector 1))))) = 2
   \<and> unsubscribeCallback (snd (receiveProps 2 (snd (componentDidMount (initialPathSelector 1)))))
        = Some 1
   \<and> onSettingsChangeListeners
        (snd (receiveProps 2 (snd (componentDidMount (initialPathSelector 1))))) = [1]"
  using resubscribes_to_previous_client[of 1 2]
  by (simp add: split_def Let_def)

section \<open>Completion notifications\<close>

lemma reconfigureClient_frame:
  "filter isNotify (fst (reconfigureClient g st s)) = []"
  "filter isBadgeEffect (fst (reconfigureClient g st s)) = []"
  "finishedTaskIds (snd (reconfigureClient g st s)) = finishedTaskIds s"
  by (simp_all add: reconfigureClient_def updateSettings_def Let_def)

lemma updateNotificationInterval_frame:
  "filter isNotify (fst (updateNotificationInterval st s)) = []"
  "filter isBadgeEffect (fst (updateNotificationInterval st s)) = []"
  "filter isCacheEffect (fst (updateNotificationInterval st s)) = []"
  "finishedTaskIds (snd (updateNotificationInterval st s)) = finishedTaskIds s"
  "api_settings (snd (updateNotificationInterval st s)) = api_settings s"
  "didInitializeSettings (snd (updateNotificationInterval st s)) = didInitializeSettings s"
  by (simp_all add: updateNotificationInterval_def Let_def)

lemma updateBadge_frame:
  "filter isNotify (updateBadge ft st) = []"
  "filter isCacheEffect (updateBadge ft st) = []"
  by (simp_all add: updateBadge_def Let_def)

lemma notifyEach_kinds:
  "filter isNotify (fst (notifyEach ts ids)) = fst (notifyEach ts ids)"
  "filter isBadgeEffect (fst (notifyEach ts ids)) = []"
  "filter isCacheEffect (fst (notifyEach ts ids)) = []"
  by (induction ids) (simp_all add: split_def Let_def split: option.splits)

lemma notifyCompletions_kinds:
  "filter isNotify (fst (fst (notifyCompletions T st s))) = fst (fst (notifyCompletions T st s))"
  "filter isBadgeEffect (fst (fst (notifyCompletions T st s))) = []"
  "filter isCacheEffect (fst (fst (notifyCompletions T st s))) = []"
  by (simp_all add: notifyCompletions_def Let_def split_def notifyEach_kinds
      split: option.splits)

lemma notifyCompletions_frame:
  "api_settings (snd (notifyCompletions T st s)) = api_settings s"
  "didInitializeSettings (snd (notifyCompletions T st s)) = didInitializeSettings s"
  by (simp_all add: notifyCompletions_def Let_def split_def split: option.splits)

text \<open>The listener, read one part at a time.\<close>

lemma listener_notifications:
  "filter isNotify (fst (fst (listener g ft T st s))) =
     fst (fst (notifyCompletions T st
       (snd (updateNotificationInterval st (snd (reconfigureClient g st s))))))"
  by (simp add: listener_def split_def Let_def reconfigureClient_frame
      updateNotificationInterval_frame updateBadge_frame notifyCompletions_kinds)

lemma listener_thrown:
  "snd (fst (listener g ft T st s)) =
     snd (fst (notifyCompletions T st
       (snd (updateNotificationInterval st (snd (reconfigureClient g st s))))))"
  by (simp add: listener_def split_def Let_def)

lemma listener_state:
  "snd (listener g ft T st s) =
     snd (notifyCompletions T st
       (snd (updateNotificationInterval st (snd (reconfigureClient g st s)))))"
  by (simp add: listener_def split_def Let_def)

lemma before_completions_finishedTaskIds:
  "finishedTaskIds (snd (updateNotificationInterval st (snd (reconfigureClient g st s))))
     = finishedTaskIds s"
  by (simp add: updateNotificationInterval_frame reconfigureClient_frame)

lemma find_taskId_distinct:
  "distinct (map taskId ts) \<Longrightarrow> u \<in> set ts \<Longrightarrow> find (\<lambda>t. taskId t = taskId u) ts = Some u"
  by (induction ts) (auto simp: image_iff)

lemma notifyEach_known_ids:
  "set ids \<subseteq> taskId ` set ts \<Longrightarrow> snd (notifyEach ts ids) = None"
proof (induction ids)
  case Nil
  show ?case by simp
next
  case (Cons i ids)
  then obtain u where "u \<in> set ts" "taskId u = i" by auto
  then have "find (\<lambda>t. taskId t = i) ts \<noteq> None"
    by (auto simp: find_None_iff)
  with Cons show ?case by (auto simp: split_def Let_def)
qed

lemma notifyEach_length:
  "set ids \<subseteq> taskId ` set ts \<Longrightarrow> length (fst (notifyEach ts ids)) = length ids"
proof (induction ids)
  case Nil
  show ?case by simp
next
  case (Cons i ids)
  then obtain u where "u \<in> set ts" "taskId u = i" by auto
  then have "find (\<lambda>t. taskId t = i) ts \<noteq> None"
    by (auto simp: find_None_iff)
  with Cons show ?case by (auto simp: split_def Let_def)
qed

lemma notifyEach_distinct:
  "distinct (map taskId ts) \<Longrightarrow> set us \<subseteq> set ts \<Longrightarrow>
     fst (notifyEach ts (map taskId us)) =
       map (\<lambda>t. Notify (Literal (title t)) (Message ''Download_finished'') None) us"
  by (induction us) (simp_all add: find_taskId_distinct split_def Let_def)

lemma new_ids_as_tasks:
  "filter (\<lambda>i. i \<notin> prior) (map taskId (filter P ts)) =
     map taskId (filter (\<lambda>t. P t \<and> taskId t \<notin> prior) ts)"
  by (induction ts) simp_all

text \<open>
  C9. A snapshot that fails the guard of the completion block (no timestamp of a
  completed fetch, or a timestamp that is not later than the start time, or a failure
  reason) leaves the stored set of finished ids as it was, undefined if it was
  undefined, and the listener sends no notification for it and does not throw.
\<close>

theorem guard_failed_keeps_baseline:
  assumes "tasksLastCompletedFetchTimestamp st = None
           \<or> (\<exists>t. tasksLastCompletedFetchTimestamp st = Some t \<and> t \<le> START_TIME)
           \<or> taskFetchFailureReason st \<noteq> None"
  shows "finishedTaskIds (snd (listener g ft START_TIME st s)) = finishedTaskIds s
       \<and> filter isNotify (fst (fst (listener g ft START_TIME st s))) = []
       \<and> snd (fst (listener g ft START_TIME st s)) = None"
proof -
  let ?s2 = "snd (updateNotificationInterval st (snd (reconfigureClient g st s)))"
  from assms have "notifyCompletions START_TIME st ?s2 = (([], None), ?s2)"
    by (cases "tasksLastCompletedFetchTimestamp st") (auto simp: notifyCompletions_def)
  then show ?thesis
    by (simp add: listener_notifications listener_thrown listener_state
        before_completions_finishedTaskIds)
qed

text \<open>
  The witness: a snapshot without a timestamp, one fetched at the start time itself, and
  one with a failure reason; the tasks A and B had been seen finished, and the snapshots
  have C finished too.
\<close>

theorem guard_failed_keeps_baseline_witness:
  "tasksLastCompletedFetchTimestamp (exampleSnapshot\<lparr> tasksLastCompletedFetchTimestamp := None \<rparr>)
     = None
   \<and> finishedTaskIds (snd (listener exampleGetHostUrl exampleFilterTasks 10
        (exampleSnapshot\<lparr> tasksLastCompletedFetchTimestamp := None \<rparr>) seenAB))
      = Some {''A'', ''B''}
   \<and> filter isNotify (fst (fst (listener exampleGetHostUrl exampleFilterTasks 10
        (exampleSnapshot\<lparr> tasksLastCompletedFetchTimestamp := None \<rparr>) seenAB))) = []
   \<and> tasksLastCompletedFetchTimestamp exampleSnapshot = Some 10 \<and> (10::int) \<le> 10
   \<and> finishedTaskIds (snd (listener exampleGetHostUrl exampleFilterTasks 10 exampleSnapshot
        initialBackground)) = None
   \<and> filter isNotify (fst (fst (listener exampleGetHostUrl exampleFilterTasks 10 exampleSnapshot
        seenAB))) = []
   \<and> taskFetchFailureReason (exampleSnapshot\<lparr> taskFetchFailureReason := Some () \<rparr>) \<noteq> None
   \<and> finishedTaskIds (snd (listener exampleGetHostUrl exampleFilterTasks 0
        (exampleSnapshot\<lparr> taskFetchFailureReason := Some () \<rparr>) seenAB))
      = Some {''A'', ''B''}"
proof -
  have h1: "tasksLastCompletedFetchTimestamp
      (exampleSnapshot\<lparr> tasksLastCompletedFetchTimestamp := None \<rparr>) = None"
    by simp
  have h2: "tasksLastCompletedFetchTimestamp exampleSnapshot = Some 10"
    by (simp add: exampleSnapshot_def)
  have h3: "taskFetchFailureReason (exampleSnapshot\<lparr> taskFetchFailureReason := Some () \<rparr>) \<noteq> None"
    by simp
  have ab: "finishedTaskIds seenAB = Some {''A'', ''B''}"
    by (simp add: seenAB_def)
  have init: "finishedTaskIds initialBackground = None"
    by (simp add: initialBackground_def)
  note a = guard_failed_keeps_baseline[where st = "exampleSnapshot\<lparr> tasksLastCompletedFetchTimestamp := None \<rparr>"
      and START_TIME = 10 and g = exampleGetHostUrl and ft = exampleFilterTasks and s = seenAB]
  note b = guard_failed_keeps_baseline[where st = exampleSnapshot
      and START_TIME = 10 and g = exampleGetHostUrl and ft = exampleFilterTasks]
  note c = guard_failed_keeps_baseline[where st = "exampleSnapshot\<lparr> taskFetchFailureReason := Some () \<rparr>"
      and START_TIME = 0 and g = exampleGetHostUrl and ft = exampleFilterTasks and s = seenAB]
  from a h1 ab have c1: "finishedTaskIds (snd (listener exampleGetHostUrl exampleFilterTasks 10
        (exampleSnapshot\<lparr> tasksLastCompletedFetchTimestamp := None \<rparr>) seenAB))
      = Some {''A'', ''B''}"
    and c2: "filter isNotify (fst (fst (listener exampleGetHostUrl exampleFilterTasks 10
        (exampleSnapshot\<lparr> tasksLastCompletedFetchTimestamp := None \<rparr>) seenAB))) = []"
    by simp_all
  from b[where s = initialBackground] h2 init
  have c3: "finishedTaskIds (snd (listener exampleGetHostUrl exampleFilterTasks 10 exampleSnapshot
        initialBackground)) = None"
    by simp
  from b[where s = seenAB] h2
  have c4: "filter isNotify (fst (fst (listener exampleGetHostUrl exampleFilterTasks 10
        exampleSnapshot seenAB))) = []"
    by simp
  from c h3 ab have c5: "finishedTaskIds (snd (listener exampleGetHostUrl exampleFilterTasks 0
        (exampleSnapshot\<lparr> taskFetchFailureReason := Some () \<rparr>) seenAB))
      = Some {''A'', ''B''}"
    by simp
  from h1 c1 c2 h2 c3 c4 h3 c5 show ?thesis by simp
qed

text \<open>
  C2. A snapshot that passes the guard: its last completed fetch is later than the start
  time and it has no failure reason. The listener does not throw and the stored set
  becomes the set of ids of the tasks that are finished or seeding, whether or not
  notifications are enabled. Without a stored set before, or with completion
  notifications disabled, it sends no notification. With a stored set and the
  notifications enabled, it sends as many notifications as there are tasks that are
  finished or seeding and whose id is not in the stored set. With the ids of the
  snapshot's tasks unique, as the data model has them, these notifications are, in
  order, one for each such task, titled with that task's title: the ids notified are
  pairwise distinct and are exactly the ids of the new set that are not in the stored
  set.
\<close>

theorem completion_notifications_for_new_ids:
  assumes "tasksLastCompletedFetchTimestamp st = Some t"
      and "t > START_TIME"
      and "taskFetchFailureReason st = None"
  shows "snd (fst (listener g ft START_TIME st s)) = None
       \<and> finishedTaskIds (snd (listener g ft START_TIME st s)) =
           Some (set (map taskId
             (filter (\<lambda>t. status t = ''finished'' \<or> status t = ''seeding'') (tasks st))))
       \<and> (finishedTaskIds s = None \<longrightarrow>
             filter isNotify (fst (fst (listener g ft START_TIME st s))) = [])
       \<and> (\<not> enableCompletionNotifications (notifications (settings st)) \<longrightarrow>
             filter isNotify (fst (fst (listener g ft START_TIME st s))) = [])
       \<and> (\<forall>prior. finishedTaskIds s = Some prior
             \<and> enableCompletionNotifications (notifications (settings st)) \<longrightarrow>
             length (filter isNotify (fst (fst (listener g ft START_TIME st s)))) =
               length (filter (\<lambda>t. (status t = ''finished'' \<or> status t = ''seeding'')
                                 \<and> taskId t \<notin> prior) (tasks st)))
       \<and> (\<forall>prior. finishedTaskIds s = Some prior
             \<and> enableCompletionNotifications (notifications (settings st))
             \<and> distinct (map taskId (tasks st)) \<longrightarrow>
             filter isNotify (fst (fst (listener g ft START_TIME st s))) =
               map (\<lambda>t. Notify (Literal (title t)) (Message ''Download_finished'') None)
                 (filter (\<lambda>t. (status t = ''finished'' \<or> status t = ''seeding'')
                              \<and> taskId t \<notin> prior) (tasks st))
             \<and> distinct (map taskId
                 (filter (\<lambda>t. (status t = ''finished'' \<or> status t = ''seeding'')
                              \<and> taskId t \<notin> prior) (tasks st)))
             \<and> set (map taskId
                 (filter (\<lambda>t. (status t = ''finished'' \<or> status t = ''seeding'')
                              \<and> taskId t \<notin> prior) (tasks st))) =
               set (map taskId
                 (filter (\<lambda>t. status t = ''finished'' \<or> status t = ''seeding'') (tasks st)))
                 - prior)"
proof -
  let ?fin = "\<lambda>t. status t = ''finished'' \<or> status t = ''seeding''"
  let ?new = "map taskId (filter ?fin (tasks st))"
  let ?s2 = "snd (updateNotificationInterval st (snd (reconfigureClient g st s)))"
  let ?en = "enableCompletionNotifications (notifications (settings st))"
  have s2: "finishedTaskIds ?s2 = finishedTaskIds s"
    by (rule before_completions_finishedTaskIds)
  have known: "\<And>prior. snd (notifyEach (tasks st) (filter (\<lambda>i. i \<notin> prior) ?new)) = None"
    by (rule notifyEach_known_ids) auto
  have thrown: "snd (fst (notifyCompletions START_TIME st ?s2)) = None"
    using assms known
    by (simp add: notifyCompletions_def Let_def split_def split: option.splits)
  have stored: "finishedTaskIds (snd (notifyCompletions START_TIME st ?s2)) = Some (set ?new)"
    using assms known
    by (simp add: notifyCompletions_def Let_def split_def split: option.splits)
  have first: "finishedTaskIds s = None \<longrightarrow> fst (fst (notifyCompletions START_TIME st ?s2)) = []"
    using assms s2
    by (simp add: notifyCompletions_def Let_def split_def split: option.splits)
  have disabled: "\<not> ?en \<longrightarrow> fst (fst (notifyCompletions START_TIME st ?s2)) = []"
    using assms
    by (simp add: notifyCompletions_def Let_def split_def split: option.splits)
  have counted: "length (fst (fst (notifyCompletions START_TIME st ?s2))) =
        length (filter (\<lambda>t. ?fin t \<and> taskId t \<notin> prior) (tasks st))"
    if "finishedTaskIds s = Some prior" and "?en" for prior
  proof -
    have "fst (fst (notifyCompletions START_TIME st ?s2)) =
        fst (notifyEach (tasks st) (filter (\<lambda>i. i \<notin> prior) ?new))"
      using assms s2 that known[of prior]
      by (simp add: notifyCompletions_def Let_def split_def split: option.splits)
    moreover have "length (fst (notifyEach (tasks st) (filter (\<lambda>i. i \<notin> prior) ?new))) =
        length (filter (\<lambda>i. i \<notin> prior) ?new)"
      by (rule notifyEach_length) auto
    moreover have "length (filter (\<lambda>i. i \<notin> prior) ?new) =
        length (filter (\<lambda>t. ?fin t \<and> taskId t \<notin> prior) (tasks st))"
      by (simp only: new_ids_as_tasks length_map)
    ultimately show ?thesis by simp
  qed
  have enabled: "fst (fst (notifyCompletions START_TIME st ?s2)) =
        map (\<lambda>t. Notify (Literal (title t)) (Message ''Download_finished'') None)
          (filter (\<lambda>t. ?fin t \<and> taskId t \<notin> prior) (tasks st))"
    if "finishedTaskIds s = Some prior" and "?en" and "distinct (map taskId (tasks st))"
    for prior
  proof -
    have "fst (fst (notifyCompletions START_TIME st ?s2)) =
        fst (notifyEach (tasks st) (filter (\<lambda>i. i \<notin> prior) ?new))"
      using assms s2 that known[of prior]
      by (simp add: notifyCompletions_def Let_def split_def split: option.splits)
    also have "\<dots> = fst (notifyEach (tasks st)
        (map taskId (filter (\<lambda>t. ?fin t \<and> taskId t \<notin> prior) (tasks st))))"
      by (simp only: new_ids_as_tasks)
    also have "\<dots> = map (\<lambda>t. Notify (Literal (title t)) (Message ''Download_finished'') None)
          (filter (\<lambda>t. ?fin t \<and> taskId t \<notin> prior) (tasks st))"
      using that(3) by (intro notifyEach_distinct) auto
    finally show ?thesis .
  qed
  have dist: "distinct (map taskId (filter (\<lambda>t. ?fin t \<and> taskId t \<notin> prior) (tasks st)))"
    if "distinct (map taskId (tasks st))" for prior
    using that by (rule distinct_map_filter)
  have ids: "set (map taskId (filter (\<lambda>t. ?fin t \<and> taskId t \<notin> prior) (tasks st))) =
      set ?new - prior" for prior
    by auto
  show ?thesis
    using thrown stored first disabled counted enabled dist ids
    by (simp only: listener_notifications listener_thrown listener_state) blast
qed

text \<open>
  The witness: A and B had been seen finished, and the snapshot has A finished, B
  seeding, C finished, D downloading and E waiting: one notification, for C, and the
  stored set becomes A, B, C. On the same snapshot with no stored set before, no
  notification is sent and the stored set becomes A, B, C.
\<close>

theorem completion_notifications_for_new_ids_witness:
  "tasksLastCompletedFetchTimestamp exampleSnapshot = Some 10 \<and> (10::int) > 0
   \<and> taskFetchFailureReason exampleSnapshot = None
   \<and> finishedTaskIds seenAB = Some {''A'', ''B''}
   \<and> enableCompletionNotifications (notifications (settings exampleSnapshot))
   \<and> distinct (map taskId (tasks exampleSnapshot))
   \<and> filter isNotify
        (fst (fst (listener exampleGetHostUrl exampleFilterTasks 0 exampleSnapshot seenAB)))
      = [Notify (Literal ''third'') (Message ''Download_finished'') None]
   \<and> finishedTaskIds (snd (listener exampleGetHostUrl exampleFilterTasks 0 exampleSnapshot seenAB))
      = Some {''A'', ''B'', ''C''}
   \<and> finishedTaskIds initialBackground = None
   \<and> filter isNotify
        (fst (fst (listener exampleGetHostUrl exampleFilterTasks 0 exampleSnapshot
           initialBackground)))
      = []
   \<and> finishedTaskIds
        (snd (listener exampleGetHostUrl exampleFilterTasks 0 exampleSnapshot initialBackground))
      = Some {''A'', ''B'', ''C''}"
proof -
  have h1: "tasksLastCompletedFetchTimestamp exampleSnapshot = Some 10"
    and h2: "(10::int) > 0"
    and h3: "taskFetchFailureReason exampleSnapshot = None"
    by (simp_all add: exampleSnapshot_def)
  have h4: "finishedTaskIds seenAB = Some {''A'', ''B''}"
    by (simp add: seenAB_def)
  have h5: "enableCompletionNotifications (notifications (settings exampleSnapshot))"
    by (simp add: exampleSnapshot_def exampleSettings_def)
  have h6: "distinct (map taskId (tasks exampleSnapshot))"
    by (simp add: exampleSnapshot_def exampleTasks_def)
  have h7: "finishedTaskIds initialBackground = None"
    by (simp add: initialBackground_def)
  have new: "map taskId (filter (\<lambda>t. status t = ''finished'' \<or> status t = ''seeding'')
      (tasks exampleSnapshot)) = [''A'', ''B'', ''C'']"
    by (simp add: exampleSnapshot_def exampleTasks_def)
  have fresh: "filter (\<lambda>t. (status t = ''finished'' \<or> status t = ''seeding'')
      \<and> taskId t \<notin> {''A'', ''B''}) (tasks exampleSnapshot) =
      [\<lparr> taskId = ''C'', title = ''third'', status = ''finished'' \<rparr>]"
    by (simp add: exampleSnapshot_def exampleTasks_def)
  note a = completion_notifications_for_new_ids[OF h1 h2 h3, where g = exampleGetHostUrl
      and ft = exampleFilterTasks and s = seenAB]
  note b = completion_notifications_for_new_ids[OF h1 h2 h3, where g = exampleGetHostUrl
      and ft = exampleFilterTasks and s = initialBackground]
  from a h4 h5 h6 have "filter isNotify
        (fst (fst (listener exampleGetHostUrl exampleFilterTasks 0 exampleSnapshot seenAB))) =
      map (\<lambda>t. Notify (Literal (title t)) (Message ''Download_finished'') None)
        (filter (\<lambda>t. (status t = ''finished'' \<or> status t = ''seeding'')
           \<and> taskId t \<notin> {''A'', ''B''}) (tasks exampleSnapshot))"
    by blast
  then have c1: "filter isNotify
        (fst (fst (listener exampleGetHostUrl exampleFilterTasks 0 exampleSnapshot seenAB)))
      = [Notify (Literal ''third'') (Message ''Download_finished'') None]"
    by (simp only: fresh) simp
  from a have c2: "finishedTaskIds
        (snd (listener exampleGetHostUrl exampleFilterTasks 0 exampleSnapshot seenAB))
      = Some {''A'', ''B'', ''C''}"
    by (simp only: new) simp
  from b h7 have c3: "filter isNotify
        (fst (fst (listener exampleGetHostUrl exampleFilterTasks 0 exampleSnapshot
           initialBackground))) = []"
    by blast
  from b have c4: "finishedTaskIds
        (snd (listener exampleGetHostUrl exampleFilterTasks 0 exampleSnapshot initialBackground))
      = Some {''A'', ''B'', ''C''}"
    by (simp only: new) simp
  from h1 h2 h3 h4 h5 h6 c1 c2 h7 c3 c4 show ?thesis by (intro conjI)
qed

section \<open>Client reconfiguration\<close>

lemma reconfigureClient_kinds:
  "filter isCacheEffect (fst (reconfigureClient g st s)) = fst (reconfigureClient g st s)"
  by (simp add: reconfigureClient_def updateSettings_def Let_def)

lemma listener_cache_effects:
  "filter isCacheEffect (fst (fst (listener g ft T st s))) = fst (reconfigureClient g st s)"
  by (simp add: listener_def split_def Let_def reconfigureClient_kinds
      updateNotificationInterval_frame updateBadge_frame notifyCompletions_kinds)

lemma listener_api_settings:
  "api_settings (snd (listener g ft T st s)) = api_settings (snd (reconfigureClient g st s))"
  by (simp add: listener_state notifyCompletions_frame updateNotificationInterval_frame)

lemma listener_didInitializeSettings:
  "didInitializeSettings (snd (listener g ft T st s)) =
     didInitializeSettings (snd (reconfigureClient g st s))"
  by (simp add: listener_state notifyCompletions_frame updateNotificationInterval_frame)

lemma reconfigureClient_changed:
  "api_settings s \<noteq> clientSettingsOf g st \<Longrightarrow>
     reconfigureClient g st s =
       (if didInitializeSettings s then [ClearCachedTasks, PollTasksAfterClear]
        else [ClearCachedTasks],
        s\<lparr> api_settings := clientSettingsOf g st, didInitializeSettings := True \<rparr>)"
  by (simp add: reconfigureClient_def updateSettings_def clientSettingsOf_def Let_def)

lemma reconfigureClient_same:
  "api_settings s = clientSettingsOf g st \<Longrightarrow> reconfigureClient g st s = ([], s)"
  by (simp add: reconfigureClient_def updateSettings_def clientSettingsOf_def Let_def)

lemma initial_settings_differ:
  "api_settings initialBackground \<noteq> clientSettingsOf g st"
  "\<not> didInitializeSettings initialBackground"
  by (simp_all add: initialBackground_def clientSettingsOf_def)

lemma listener_keeps_initialized:
  "didInitializeSettings s \<Longrightarrow> didInitializeSettings (snd (listener g ft T st s))"
  by (cases "api_settings s = clientSettingsOf g st")
     (simp_all add: listener_didInitializeSettings reconfigureClient_changed
        reconfigureClient_same)

lemma listenAll_keeps_initialized:
  "didInitializeSettings s \<Longrightarrow> didInitializeSettings (listenAll g ft T sts s)"
  by (induction sts arbitrary: s) (simp_all add: listener_keeps_initialized)

lemma listenAll_initialized:
  "pre \<noteq> [] \<Longrightarrow> didInitializeSettings (listenAll g ft T pre initialBackground)"
proof (cases pre)
  case Nil
  assume "pre \<noteq> []"
  with Nil show ?thesis by simp
next
  case (Cons st sts)
  have "didInitializeSettings (snd (listener g ft T st initialBackground))"
    by (simp add: listener_didInitializeSettings reconfigureClient_changed
        initial_settings_differ)
  then show ?thesis
    using Cons by (simp add: listenAll_keeps_initialized)
qed

text \<open>
  C4. One snapshot, in any state of the module: when the configuration made from the
  snapshot differs from the one the client has, the client takes it and the cached tasks
  are cleared, and a poll is chained to the clearing exactly when an earlier snapshot has
  initialised the settings; when it does not differ, the client keeps its configuration
  and nothing is cleared or polled by this branch. From the module's initial state: the
  first snapshot always differs from the empty configuration of the new client; it is
  applied and the cache cleared, with no poll. Every later snapshot that differs from
  the applied configuration is applied, the cache cleared, and a poll chained to the
  clearing.
\<close>

theorem reconfigure_clears_and_polls_after_first:
  "(api_settings s \<noteq> clientSettingsOf g st \<longrightarrow>
      api_settings (snd (listener g ft T st s)) = clientSettingsOf g st
      \<and> filter isCacheEffect (fst (fst (listener g ft T st s))) =
          (if didInitializeSettings s then [ClearCachedTasks, PollTasksAfterClear]
           else [ClearCachedTasks]))
   \<and> (api_settings s = clientSettingsOf g st \<longrightarrow>
      api_settings (snd (listener g ft T st s)) = api_settings s
      \<and> filter isCacheEffect (fst (fst (listener g ft T st s))) = [])
   \<and> api_settings (snd (listener g ft T st initialBackground)) = clientSettingsOf g st
   \<and> filter isCacheEffect (fst (fst (listener g ft T st initialBackground))) = [ClearCachedTasks]
   \<and> (\<forall>pre. pre \<noteq> []
         \<and> api_settings (listenAll g ft T pre initialBackground) \<noteq> clientSettingsOf g st \<longrightarrow>
         api_settings (snd (listener g ft T st (listenAll g ft T pre initialBackground)))
           = clientSettingsOf g st
         \<and> filter isCacheEffect
             (fst (fst (listener g ft T st (listenAll g ft T pre initialBackground))))
           = [ClearCachedTasks, PollTasksAfterClear])"
proof -
  have changed: "api_settings s \<noteq> clientSettingsOf g st \<longrightarrow>
      api_settings (snd (listener g ft T st s)) = clientSettingsOf g st
      \<and> filter isCacheEffect (fst (fst (listener g ft T st s))) =
          (if didInitializeSettings s then [ClearCachedTasks, PollTasksAfterClear]
           else [ClearCachedTasks])" for s
    by (simp add: listener_cache_effects listener_api_settings reconfigureClient_changed)
  have same: "api_settings s = clientSettingsOf g st \<longrightarrow>
      api_settings (snd (listener g ft T st s)) = api_settings s
      \<and> filter isCacheEffect (fst (fst (listener g ft T st s))) = []"
    by (simp add: listener_cache_effects listener_api_settings reconfigureClient_same)
  have first: "api_settings (snd (listener g ft T st initialBackground)) = clientSettingsOf g st
      \<and> filter isCacheEffect (fst (fst (listener g ft T st initialBackground)))
          = [ClearCachedTasks]"
    using changed[of initialBackground] initial_settings_differ(1)[of g st]
      initial_settings_differ(2)
    by simp
  have later: "\<forall>pre. pre \<noteq> []
         \<and> api_settings (listenAll g ft T pre initialBackground) \<noteq> clientSettingsOf g st \<longrightarrow>
         api_settings (snd (listener g ft T st (listenAll g ft T pre initialBackground)))
           = clientSettingsOf g st
         \<and> filter isCacheEffect
             (fst (fst (listener g ft T st (listenAll g ft T pre initialBackground))))
           = [ClearCachedTasks, PollTasksAfterClear]"
  proof (intro allI impI)
    fix pre
    assume a: "pre \<noteq> []
         \<and> api_settings (listenAll g ft T pre initialBackground) \<noteq> clientSettingsOf g st"
    then have "didInitializeSettings (listenAll g ft T pre initialBackground)"
      by (simp add: listenAll_initialized)
    with a changed[of "listenAll g ft T pre initialBackground"]
    show "api_settings (snd (listener g ft T st (listenAll g ft T pre initialBackground)))
           = clientSettingsOf g st
         \<and> filter isCacheEffect
             (fst (fst (listener g ft T st (listenAll g ft T pre initialBackground))))
           = [ClearCachedTasks, PollTasksAfterClear]"
      by simp
  qed
  from changed[of s] same first later show ?thesis by (intro conjI) simp_all
qed

text \<open>
  The witness: the first snapshot, then the same snapshot again, then one with another
  password.
\<close>

theorem reconfigure_clears_and_polls_after_first_witness:
  "filter isCacheEffect
     (fst (fst (listener exampleGetHostUrl exampleFilterTasks 0 exampleSnapshot initialBackground)))
     = [ClearCachedTasks]
   \<and> api_settings (listenAll exampleGetHostUrl exampleFilterTasks 0 [exampleSnapshot]
        initialBackground)
      = clientSettingsOf exampleGetHostUrl exampleSnapshot
   \<and> filter isCacheEffect
        (fst (fst (listener exampleGetHostUrl exampleFilterTasks 0 exampleSnapshot
           (listenAll exampleGetHostUrl exampleFilterTasks 0 [exampleSnapshot]
              initialBackground))))
      = []
   \<and> [exampleSnapshot] \<noteq> []
   \<and> api_settings (listenAll exampleGetHostUrl exampleFilterTasks 0 [exampleSnapshot]
        initialBackground)
      \<noteq> clientSettingsOf exampleGetHostUrl passwordChanged
   \<and> filter isCacheEffect
        (fst (fst (listener exampleGetHostUrl exampleFilterTasks 0 passwordChanged
           (listenAll exampleGetHostUrl exampleFilterTasks 0 [exampleSnapshot]
              initialBackground))))
      = [ClearCachedTasks, PollTasksAfterClear]
   \<and> passwd (api_settings (snd (listener exampleGetHostUrl exampleFilterTasks 0 passwordChanged
        (listenAll exampleGetHostUrl exampleFilterTasks 0 [exampleSnapshot]
           initialBackground))))
      = Some ''q''"
proof -
  let ?g = exampleGetHostUrl and ?ft = exampleFilterTasks
  let ?s1 = "listenAll ?g ?ft 0 [exampleSnapshot] initialBackground"
  note first = reconfigure_clears_and_polls_after_first[where g = ?g and ft = ?ft and T = 0
      and st = exampleSnapshot and s = ?s1]
  note later = reconfigure_clears_and_polls_after_first[where g = ?g and ft = ?ft and T = 0
      and st = passwordChanged and s = ?s1]
  from first have c1: "filter isCacheEffect
      (fst (fst (listener ?g ?ft 0 exampleSnapshot initialBackground))) = [ClearCachedTasks]"
    by blast
  from first have "api_settings (snd (listener ?g ?ft 0 exampleSnapshot initialBackground))
      = clientSettingsOf ?g exampleSnapshot"
    by blast
  then have c2: "api_settings ?s1 = clientSettingsOf ?g exampleSnapshot"
    by simp
  from first c2 have c3: "filter isCacheEffect
      (fst (fst (listener ?g ?ft 0 exampleSnapshot ?s1))) = []"
    by blast
  have h1: "[exampleSnapshot] \<noteq> []"
    by simp
  have "clientSettingsOf ?g exampleSnapshot \<noteq> clientSettingsOf ?g passwordChanged"
    by (simp add: clientSettingsOf_def passwordChanged_def exampleSnapshot_def
        exampleSettings_def)
  with c2 have h2: "api_settings ?s1 \<noteq> clientSettingsOf ?g passwordChanged"
    by simp
  from later h1 h2 have c4: "filter isCacheEffect
      (fst (fst (listener ?g ?ft 0 passwordChanged ?s1)))
      = [ClearCachedTasks, PollTasksAfterClear]"
    and c5': "api_settings (snd (listener ?g ?ft 0 passwordChanged ?s1))
      = clientSettingsOf ?g passwordChanged"
    by blast+
  from c5' have c5: "passwd (api_settings (snd (listener ?g ?ft 0 passwordChanged ?s1)))
      = Some ''q''"
    by (simp add: clientSettingsOf_def passwordChanged_def exampleSnapshot_def
        exampleSettings_def)
  from c1 c2 c3 h1 h2 c4 c5 show ?thesis by (intro conjI)
qed

section \<open>Icon and badge\<close>

lemma updateBadge_kinds:
  "filter isBadgeEffect (updateBadge ft st) = updateBadge ft st"
  by (simp add: updateBadge_def Let_def)

lemma listener_badge:
  "filter isBadgeEffect (fst (fst (listener g ft T st s))) = updateBadge ft st"
  by (simp add: listener_def split_def Let_def reconfigureClient_frame
      updateNotificationInterval_frame updateBadge_kinds notifyCompletions_kinds)

lemma toString_digits: "list_all isDigit (toString n)"
proof (induction n rule: toString.induct)
  case (1 n)
  have d: "\<And>k. k < 10 \<Longrightarrow> isDigit (digitChar k)"
    by (simp add: isDigit_def digitChar_def)
  show ?case
  proof (cases "n < 10")
    case True
    then show ?thesis by (subst toString.simps) (simp add: d)
  next
    case False
    with 1 have "list_all isDigit (toString (n div 10))" by simp
    moreover have "isDigit (digitChar (n mod 10))" by (rule d) simp
    ultimately show ?thesis using False by (subst toString.simps) simp
  qed
qed

lemma fromDecimal_toString: "fromDecimal (toString n) = n"
proof (induction n rule: toString.induct)
  case (1 n)
  have d: "\<And>k. k < 10 \<Longrightarrow> (of_char (digitChar k) :: nat) - 48 = k"
    by (simp add: digitChar_def)
  show ?case
  proof (cases "n < 10")
    case True
    then show ?thesis by (subst toString.simps) (simp add: fromDecimal_def d)
  next
    case False
    with 1 have ih: "fromDecimal (toString (n div 10)) = n div 10" by simp
    have "fromDecimal (toString n) =
        10 * fromDecimal (toString (n div 10)) + (of_char (digitChar (n mod 10)) - 48)"
      using False by (subst toString.simps) (simp add: fromDecimal_def)
    then show ?thesis using ih by (simp add: d)
  qed
qed

lemma toString_no_leading_zero: "0 < n \<Longrightarrow> hd (toString n) \<noteq> CHR ''0''"
proof (induction n rule: toString.induct)
  case (1 n)
  have d: "\<And>k. 0 < k \<Longrightarrow> k < 10 \<Longrightarrow> digitChar k \<noteq> CHR ''0''"
  proof -
    fix k :: nat
    assume "0 < k" "k < 10"
    then have "(of_char (digitChar k) :: nat) \<noteq> of_char (CHR ''0'')"
      by (simp add: digitChar_def)
    then show "digitChar k \<noteq> CHR ''0''" by auto
  qed
  show ?case
  proof (cases "n < 10")
    case True
    with "1.prems" show ?thesis by (subst toString.simps) (simp add: d)
  next
    case False
    then have pos: "0 < n div 10" by simp
    have ne: "toString (n div 10) \<noteq> []"
      by (subst toString.simps) simp
    from False pos 1 have "hd (toString (n div 10)) \<noteq> CHR ''0''" by simp
    then show ?thesis using False ne by (subst toString.simps) simp
  qed
qed

text \<open>
  C7. The icon and badge effects of the listener on a snapshot. With a failure reason:
  the disabled icons, the empty badge text and the colour 217, 0, 0, 255. Without: the
  normal icons, the colour 0, 217, 0, 255, and as badge text the empty string when the
  count is 0 and toString of the count otherwise, where the count is the number of tasks
  in mode total and the number of tasks filterTasks keeps in mode filtered; the mode has
  these two values only. toString writes the count in decimal: digits only, no leading
  zero, and read back as a decimal numeral it is the count.
\<close>

theorem badge_and_icon:
  "filter isBadgeEffect (fst (fst (listener g ft T st s))) =
     (if taskFetchFailureReason st \<noteq> None then
        [SetIcon [(''16'', ''icons/icon-16-disabled.png''),
                  (''32'', ''icons/icon-32-disabled.png''),
                  (''64'', ''icons/icon-64-disabled.png''),
                  (''128'', ''icons/icon-128-disabled.png''),
                  (''256'', ''icons/icon-256-disabled.png'')],
         SetBadgeText [],
         SetBadgeBackgroundColor [217, 0, 0, 255]]
      else
        [SetIcon [(''16'', ''icons/icon-16.png''),
                  (''32'', ''icons/icon-32.png''),
                  (''64'', ''icons/icon-64.png''),
                  (''128'', ''icons/icon-128.png''),
                  (''256'', ''icons/icon-256.png'')],
         SetBadgeText
           (case badgeDisplayType (settings st) of
              Total \<Rightarrow>
                if length (tasks st) = 0 then [] else toString (length (tasks st))
            | Filtered \<Rightarrow>
                if length (ft (tasks st) (visibleTasks (settings st))) = 0 then []
                else toString (length (ft (tasks st) (visibleTasks (settings st))))),
         SetBadgeBackgroundColor [0, 217, 0, 255]])
   \<and> (\<forall>m. m = Total \<or> m = Filtered)
   \<and> (\<forall>n. list_all isDigit (toString n) \<and> fromDecimal (toString n) = n
          \<and> (0 < n \<longrightarrow> hd (toString n) \<noteq> CHR ''0''))"
proof -
  have modes: "\<forall>m. m = Total \<or> m = Filtered"
    using BadgeDisplayType.exhaust by blast
  have decimal: "\<forall>n. list_all isDigit (toString n) \<and> fromDecimal (toString n) = n
          \<and> (0 < n \<longrightarrow> hd (toString n) \<noteq> CHR ''0'')"
    by (simp add: toString_digits fromDecimal_toString toString_no_leading_zero)
  have "filter isBadgeEffect (fst (fst (listener g ft T st s))) = updateBadge ft st"
    by (rule listener_badge)
  then have effects: "filter isBadgeEffect (fst (fst (listener g ft T st s))) =
     (if taskFetchFailureReason st \<noteq> None then
        [SetIcon [(''16'', ''icons/icon-16-disabled.png''),
                  (''32'', ''icons/icon-32-disabled.png''),
                  (''64'', ''icons/icon-64-disabled.png''),
                  (''128'', ''icons/icon-128-disabled.png''),
                  (''256'', ''icons/icon-256-disabled.png'')],
         SetBadgeText [],
         SetBadgeBackgroundColor [217, 0, 0, 255]]
      else
        [SetIcon [(''16'', ''icons/icon-16.png''),
                  (''32'', ''icons/icon-32.png''),
                  (''64'', ''icons/icon-64.png''),
                  (''128'', ''icons/icon-128.png''),
                  (''256'', ''icons/icon-256.png'')],
         SetBadgeText
           (case badgeDisplayType (settings st) of
              Total \<Rightarrow>
                if length (tasks st) = 0 then [] else toString (length (tasks st))
            | Filtered \<Rightarrow>
                if length (ft (tasks st) (visibleTasks (settings st))) = 0 then []
                else toString (length (ft (tasks st) (visibleTasks (settings st))))),
         SetBadgeBackgroundColor [0, 217, 0, 255]])"
    by (cases "badgeDisplayType (settings st)") (simp_all add: updateBadge_def Let_def)
  from effects modes decimal show ?thesis by (intro conjI)
qed

text \<open>
  The witness: five tasks in mode total give the badge 5; in mode filtered, with a
  filter that keeps the one downloading task, the badge 1; no tasks give the empty
  badge; a failure reason gives the empty badge and the failure colour.
\<close>

theorem badge_and_icon_witness:
  "filter (\<lambda>e. case e of SetBadgeText t \<Rightarrow> True | _ \<Rightarrow> False)
     (fst (fst (listener exampleGetHostUrl exampleFilterTasks 0 exampleSnapshot
        initialBackground)))
     = [SetBadgeText ''5'']
   \<and> filter (\<lambda>e. case e of SetBadgeText t \<Rightarrow> True | _ \<Rightarrow> False)
       (fst (fst (listener exampleGetHostUrl exampleFilterTasks 0
          (exampleSnapshot\<lparr> settings := exampleSettings\<lparr> badgeDisplayType := Filtered \<rparr> \<rparr>)
          initialBackground)))
     = [SetBadgeText ''1'']
   \<and> filter (\<lambda>e. case e of SetBadgeText t \<Rightarrow> True | _ \<Rightarrow> False)
       (fst (fst (listener exampleGetHostUrl exampleFilterTasks 0
          (exampleSnapshot\<lparr> tasks := [] \<rparr>) initialBackground)))
     = [SetBadgeText []]
   \<and> filter (\<lambda>e. case e of SetBadgeText t \<Rightarrow> True | SetBadgeBackgroundColor c \<Rightarrow> True
                  | _ \<Rightarrow> False)
       (fst (fst (listener exampleGetHostUrl exampleFilterTasks 0
          (exampleSnapshot\<lparr> taskFetchFailureReason := Some () \<rparr>) initialBackground)))
     = [SetBadgeText [], SetBadgeBackgroundColor [217, 0, 0, 255]]
   \<and> (0::nat) < 5 \<and> hd (toString 5) \<noteq> CHR ''0''"
proof -
  let ?g = exampleGetHostUrl and ?ft = exampleFilterTasks
  let ?text = "\<lambda>e. case e of SetBadgeText t \<Rightarrow> True | _ \<Rightarrow> False"
  let ?textColour = "\<lambda>e. case e of SetBadgeText t \<Rightarrow> True
      | SetBadgeBackgroundColor c \<Rightarrow> True | _ \<Rightarrow> False"
  have sub: "filter ?text es = filter ?text (filter isBadgeEffect es)"
    "filter ?textColour es = filter ?textColour (filter isBadgeEffect es)" for es
    by (induction es) (auto split: Effect.splits)
  have five: "toString 5 = ''5''" and one: "toString (Suc 0) = ''1''"
    by code_simp+
  have len: "length exampleTasks = 5"
    and kept: "length (exampleFilterTasks exampleTasks ()) = 1"
    by (simp_all add: exampleTasks_def exampleFilterTasks_def)
  note a = badge_and_icon[where g = ?g and ft = ?ft and T = 0 and s = initialBackground
      and st = exampleSnapshot]
  note b = badge_and_icon[where g = ?g and ft = ?ft and T = 0 and s = initialBackground
      and st = "exampleSnapshot\<lparr> settings := exampleSettings\<lparr> badgeDisplayType := Filtered \<rparr> \<rparr>"]
  note c = badge_and_icon[where g = ?g and ft = ?ft and T = 0 and s = initialBackground
      and st = "exampleSnapshot\<lparr> tasks := [] \<rparr>"]
  note d = badge_and_icon[where g = ?g and ft = ?ft and T = 0 and s = initialBackground
      and st = "exampleSnapshot\<lparr> taskFetchFailureReason := Some () \<rparr>"]
  from a[THEN conjunct1] have a': "filter isBadgeEffect (fst (fst (listener ?g ?ft 0 exampleSnapshot
      initialBackground))) =
      [SetIcon [(''16'', ''icons/icon-16.png''), (''32'', ''icons/icon-32.png''),
                (''64'', ''icons/icon-64.png''), (''128'', ''icons/icon-128.png''),
                (''256'', ''icons/icon-256.png'')],
       SetBadgeText ''5'', SetBadgeBackgroundColor [0, 217, 0, 255]]"
    by (simp add: exampleSnapshot_def exampleSettings_def len five)
  have c1: "filter ?text (fst (fst (listener ?g ?ft 0 exampleSnapshot initialBackground)))
      = [SetBadgeText ''5'']"
    by (subst sub(1)) (simp add: a')
  from b[THEN conjunct1] have b': "filter isBadgeEffect (fst (fst (listener ?g ?ft 0
      (exampleSnapshot\<lparr> settings := exampleSettings\<lparr> badgeDisplayType := Filtered \<rparr> \<rparr>)
      initialBackground))) =
      [SetIcon [(''16'', ''icons/icon-16.png''), (''32'', ''icons/icon-32.png''),
                (''64'', ''icons/icon-64.png''), (''128'', ''icons/icon-128.png''),
                (''256'', ''icons/icon-256.png'')],
       SetBadgeText ''1'', SetBadgeBackgroundColor [0, 217, 0, 255]]"
    by (simp add: exampleSnapshot_def exampleSettings_def kept one)
  have c2: "filter ?text (fst (fst (listener ?g ?ft 0
      (exampleSnapshot\<lparr> settings := exampleSettings\<lparr> badgeDisplayType := Filtered \<rparr> \<rparr>)
      initialBackground))) = [SetBadgeText ''1'']"
    by (subst sub(1)) (simp add: b')
  from c[THEN conjunct1] have c': "filter isBadgeEffect (fst (fst (listener ?g ?ft 0
      (exampleSnapshot\<lparr> tasks := [] \<rparr>) initialBackground))) =
      [SetIcon [(''16'', ''icons/icon-16.png''), (''32'', ''icons/icon-32.png''),
                (''64'', ''icons/icon-64.png''), (''128'', ''icons/icon-128.png''),
                (''256'', ''icons/icon-256.png'')],
       SetBadgeText [], SetBadgeBackgroundColor [0, 217, 0, 255]]"
    by (simp add: exampleSnapshot_def exampleSettings_def)
  have c3: "filter ?text (fst (fst (listener ?g ?ft 0
      (exampleSnapshot\<lparr> tasks := [] \<rparr>) initialBackground))) = [SetBadgeText []]"
    by (subst sub(1)) (simp add: c')
  from d[THEN conjunct1] have d': "filter isBadgeEffect (fst (fst (listener ?g ?ft 0
      (exampleSnapshot\<lparr> taskFetchFailureReason := Some () \<rparr>) initialBackground))) =
      [SetIcon [(''16'', ''icons/icon-16-disabled.png''),
                (''32'', ''icons/icon-32-disabled.png''),
                (''64'', ''icons/icon-64-disabled.png''),
                (''128'', ''icons/icon-128-disabled.png''),
                (''256'', ''icons/icon-256-disabled.png'')],
       SetBadgeText [], SetBadgeBackgroundColor [217, 0, 0, 255]]"
    by simp
  have c4: "filter ?textColour (fst (fst (listener ?g ?ft 0
      (exampleSnapshot\<lparr> taskFetchFailureReason := Some () \<rparr>) initialBackground)))
      = [SetBadgeText [], SetBadgeBackgroundColor [217, 0, 0, 255]]"
    by (subst sub(2)) (simp add: d')
  have h: "(0::nat) < 5" by simp
  from a h have c5: "hd (toString 5) \<noteq> CHR ''0''" by blast
  from c1 c2 c3 c4 h c5 show ?thesis by (intro conjI)
qed

section \<open>The context menu\<close>













text \<open>
  C10. A click whose payload has a link URL that is not empty dispatches that one URL,
  the string as it is. A click without a link URL and with a source URL that is not
  empty dispatches that one URL, the string as it is. Neither looks at the selected
  text, the protocol test or the protocols. A click with none of link URL, source URL
  and selected text (each undefined or empty) shows the failure notification "URL is
  empty or missing" and dispatches nothing.
\<close>

theorem link_or_source_dispatched_as_given:
  "(\<forall>l. linkUrl d = Some l \<and> l \<noteq> [] \<longrightarrow>
      onclick startsWithAny protocols d s =
        [AddDownloadTasksAndPoll (showNonErrorNotifications s) [l]])
   \<and> (\<forall>u. truthy (linkUrl d) = None \<and> srcUrl d = Some u \<and> u \<noteq> [] \<longrightarrow>
      onclick startsWithAny protocols d s =
        [AddDownloadTasksAndPoll (showNonErrorNotifications s) [u]])
   \<and> (truthy (linkUrl d) = None \<and> truthy (srcUrl d) = None
        \<and> truthy (selectionText d) = None \<longrightarrow>
      onclick startsWithAny protocols d s =
        [Notify (Message ''Failed_to_add_download'')
           (Message ''URL_is_empty_or_missing'') (Some ''failure'')])"
proof -
  have t: "x = Some y \<and> y \<noteq> [] \<longrightarrow> truthy x = Some y" for x y
    by (cases y) simp_all
  have link: "\<forall>l. linkUrl d = Some l \<and> l \<noteq> [] \<longrightarrow>
      onclick startsWithAny protocols d s =
        [AddDownloadTasksAndPoll (showNonErrorNotifications s) [l]]"
    using t[of "linkUrl d"] by (simp add: onclick_def)
  have src: "\<forall>u. truthy (linkUrl d) = None \<and> srcUrl d = Some u \<and> u \<noteq> [] \<longrightarrow>
      onclick startsWithAny protocols d s =
        [AddDownloadTasksAndPoll (showNonErrorNotifications s) [u]]"
    using t[of "srcUrl d"] by (simp add: onclick_def)
  have none: "truthy (linkUrl d) = None \<and> truthy (srcUrl d) = None
        \<and> truthy (selectionText d) = None \<longrightarrow>
      onclick startsWithAny protocols d s =
        [Notify (Message ''Failed_to_add_download'')
           (Message ''URL_is_empty_or_missing'') (Some ''failure'')]"
    by (simp add: onclick_def)
  from link src none show ?thesis by (intro conjI)
qed

text \<open>
  The witness: a link URL with spaces around it and a scheme outside the protocols, with
  a selected text beside it; a source URL next to an empty link URL; and a payload whose
  selected text is the empty string.
\<close>

theorem link_or_source_dispatched_as_given_witness:
  "onclick startsWithAnyProtocol [''http'']
     \<lparr> linkUrl = Some '' gopher://x '', srcUrl = Some ''http://y'',
       selectionText = Some ''http://z'' \<rparr> initialBackground
     = [AddDownloadTasksAndPoll True ['' gopher://x '']]
   \<and> onclick startsWithAnyProtocol [''http'']
       \<lparr> linkUrl = Some [], srcUrl = Some ''data:y'', selectionText = None \<rparr> initialBackground
     = [AddDownloadTasksAndPoll True [''data:y'']]
   \<and> onclick startsWithAnyProtocol [''http'']
       \<lparr> linkUrl = None, srcUrl = None, selectionText = Some [] \<rparr> initialBackground
     = [Notify (Message ''Failed_to_add_download'')
          (Message ''URL_is_empty_or_missing'') (Some ''failure'')]"
proof -
  have shown: "showNonErrorNotifications initialBackground = True"
    by (simp add: initialBackground_def)
  note a = link_or_source_dispatched_as_given[where startsWithAny = startsWithAnyProtocol
      and protocols = "[''http'']" and s = initialBackground
      and d = "\<lparr> linkUrl = Some '' gopher://x '', srcUrl = Some ''http://y'',
                 selectionText = Some ''http://z'' \<rparr>"]
  note b = link_or_source_dispatched_as_given[where startsWithAny = startsWithAnyProtocol
      and protocols = "[''http'']" and s = initialBackground
      and d = "\<lparr> linkUrl = Some [], srcUrl = Some ''data:y'', selectionText = None \<rparr>"]
  note c = link_or_source_dispatched_as_given[where startsWithAny = startsWithAnyProtocol
      and protocols = "[''http'']" and s = initialBackground
      and d = "\<lparr> linkUrl = None, srcUrl = None, selectionText = Some [] \<rparr>"]
  from a[THEN conjunct1] have c1: "onclick startsWithAnyProtocol [''http'']
     \<lparr> linkUrl = Some '' gopher://x '', srcUrl = Some ''http://y'',
       selectionText = Some ''http://z'' \<rparr> initialBackground
     = [AddDownloadTasksAndPoll True ['' gopher://x '']]"
    by (simp add: shown)
  from b[THEN conjunct2, THEN conjunct1] have c2: "onclick startsWithAnyProtocol [''http'']
       \<lparr> linkUrl = Some [], srcUrl = Some ''data:y'', selectionText = None \<rparr> initialBackground
     = [AddDownloadTasksAndPoll True [''data:y'']]"
    by (simp add: shown)
  from c[THEN conjunct2, THEN conjunct2] have c3: "onclick startsWithAnyProtocol [''http'']
       \<lparr> linkUrl = None, srcUrl = None, selectionText = Some [] \<rparr> initialBackground
     = [Notify (Message ''Failed_to_add_download'')
          (Message ''URL_is_empty_or_missing'') (Some ''failure'')]"
    by simp
  from c1 c2 c3 show ?thesis by (intro conjI)
qed

end
